theory Spec2Isabelle
  imports Complex_Main "HOL-Library.AList"
begin

section \<open>JavaScript Map objects\<close>

text \<open>
  A JavaScript \<open>Map\<close> iterates in insertion order and \<open>set\<close> on a key that is
  present keeps its position, so a Map is an association list with distinct keys:
  \<open>get\<close> is \<open>map_of\<close>, \<open>set\<close> is \<open>AList.update\<close>, \<open>delete\<close> is
  \<open>AList.delete\<close>, \<open>size\<close> is \<open>length\<close>.
\<close>

definition has :: "'k \<Rightarrow> ('k \<times> 'v) list \<Rightarrow> bool" where
  "has k al = (case map_of al k of None \<Rightarrow> False | Some v \<Rightarrow> True)"

section \<open>The message bus: agent-messenger.js\<close>

subsection \<open>Data\<close>

datatype message_status = PENDING | DELIVERED | FAILED | RETRYING

text \<open>
  A message object. \<open>priority\<close> is the number the comparator of \<open>send\<close> subtracts;
  \<open>error\<close>, \<open>deliveredAt\<close> and \<open>failedAt\<close> are the properties the bus adds later
  (absent on a fresh message).
\<close>

record message =
  msg_id :: string
  msg_type :: string
  sourceAgentId :: string
  targetAgentId :: string
  worktree :: "string option"
  payload :: string
  priority :: int
  status :: message_status
  createdAt :: nat
  timeout :: nat
  retryCount :: nat
  error :: "string option"
  deliveredAt :: "nat option"
  failedAt :: "nat option"

definition MAX_QUEUE_SIZE :: nat where "MAX_QUEUE_SIZE = 1000"
definition MAX_RETRIES :: nat where "MAX_RETRIES = 3"
definition RETRY_DELAY_MS :: nat where "RETRY_DELAY_MS = 1000"

text \<open>
  Message objects are shared: a queue, a retry timer's closure and the caller of
  \<open>send\<close> hold the same object, and the bus mutates it in place. So the state has a
  store \<open>heap\<close> from object references to message objects; queues hold references.

  \<^item> \<open>messageQueues\<close>: the Map from queue key to array of messages;
  \<^item> \<open>retryTimers\<close>: the Map from message id to timer; a timer is its delay in
    milliseconds and the message object its callback captured;
  \<^item> \<open>files\<close>: the persistence directory, file \<open><id>.json\<close> under key \<open>id\<close>,
    holding the snapshot \<open>JSON.stringify\<close> wrote;
  \<^item> \<open>diskOk\<close>: whether \<open>fs.writeFile\<close> and \<open>fs.unlink\<close> succeed; when they throw,
    \<open>persistMessage\<close> and \<open>deletePersistedMessage\<close> log and carry on;
  \<^item> \<open>events\<close>: what \<open>emit\<close> published, oldest first, each with a snapshot of the
    message at that moment;
  \<^item> \<open>clock\<close>: what \<open>Date.now()\<close> returns.
\<close>

record messenger =
  heap :: "nat \<Rightarrow> message"
  messageQueues :: "(string \<times> nat list) list"
  retryTimers :: "(string \<times> (nat \<times> nat)) list"
  isProcessing :: bool
  files :: "(string \<times> message) list"
  diskOk :: bool
  events :: "(string \<times> message) list"
  clock :: nat

datatype messenger_error = QueueFull string

text \<open>
  \<open>createMessage\<close>: the fresh id (\<open>crypto.randomUUID()\<close>) and the time are
  arguments; the caller passes the defaults of the options (priority \<open>NORMAL = 2\<close>,
  no worktree, timeout 30000).
\<close>

definition createMessage ::
  "string \<Rightarrow> nat \<Rightarrow> string \<Rightarrow> string \<Rightarrow> string \<Rightarrow> string \<Rightarrow> int \<Rightarrow> string option \<Rightarrow> nat
     \<Rightarrow> message" where
  "createMessage uuid now type source target pl prio wt tmo =
     \<lparr>msg_id = uuid, msg_type = type, sourceAgentId = source, targetAgentId = target,
      worktree = wt, payload = pl, priority = prio, status = PENDING, createdAt = now,
      timeout = tmo, retryCount = 0, error = None, deliveredAt = None, failedAt = None\<rparr>"

text \<open>The constructor: no queue, no timer, idle; over a store, a disk and a clock.\<close>

definition newMessenger :: "(nat \<Rightarrow> message) \<Rightarrow> bool \<Rightarrow> nat \<Rightarrow> messenger" where
  "newMessenger h ok now =
     \<lparr>heap = h, messageQueues = [], retryTimers = [], isProcessing = False, files = [],
      diskOk = ok, events = [], clock = now\<rparr>"

subsection \<open>Queue keys\<close>

text \<open>
  \<^verbatim>\<open>return `${worktree || "default"}:${agentId}`;\<close>
  A worktree that is \<open>null\<close> (here \<open>None\<close>) or the empty string is falsy.
\<close>

definition getQueueKey :: "string \<Rightarrow> string option \<Rightarrow> string" where
  "getQueueKey agentId wt =
     (case wt of None \<Rightarrow> ''default'' | Some w \<Rightarrow> (if w = [] then ''default'' else w))
       @ '':'' @ agentId"

text \<open>The key \<open>send\<close> computes for the message object \<open>r\<close>.\<close>

definition keyOf :: "(nat \<Rightarrow> message) \<Rightarrow> nat \<Rightarrow> string" where
  "keyOf h r = getQueueKey (targetAgentId (h r)) (worktree (h r))"

definition queueOf :: "messenger \<Rightarrow> string \<Rightarrow> nat list" where
  "queueOf s queueKey = (case map_of (messageQueues s) queueKey of None \<Rightarrow> [] | Some q \<Rightarrow> q)"

subsection \<open>Persistence and events\<close>

definition persistMessage :: "nat \<Rightarrow> messenger \<Rightarrow> messenger" where
  "persistMessage r s =
     (if diskOk s
      then s\<lparr>files := AList.update (msg_id (heap s r)) (heap s r) (files s)\<rparr>
      else s)"

definition deletePersistedMessage :: "string \<Rightarrow> messenger \<Rightarrow> messenger" where
  "deletePersistedMessage messageId s =
     (if diskOk s then s\<lparr>files := AList.delete messageId (files s)\<rparr> else s)"

definition emit :: "string \<Rightarrow> nat \<Rightarrow> messenger \<Rightarrow> messenger" where
  "emit name r s = s\<lparr>events := events s @ [(name, heap s r)]\<rparr>"

subsection \<open>send\<close>

text \<open>
  \<open>startProcessing\<close> raises the flag and starts \<open>processQueue\<close>, which is
  asynchronous: its steps are the transitions \<open>processQueue\<close> below.
\<close>

definition startProcessing :: "messenger \<Rightarrow> messenger" where
  "startProcessing s = (if isProcessing s then s else s\<lparr>isProcessing := True\<rparr>)"

text \<open>
  \<open>Array.prototype.sort\<close> is stable and the comparator is
  \<open>(a, b) => a.priority - b.priority\<close>: a stable sort on the key \<open>priority\<close>.
  An exception leaves the mutations made before it, so \<open>send\<close> returns the state
  in both cases.
\<close>

definition send :: "messenger \<Rightarrow> nat \<Rightarrow> (messenger_error + nat) \<times> messenger" where
  "send s r =
     (let message = heap s r;
          queueKey = getQueueKey (targetAgentId message) (worktree message);
          s1 = (if \<not> has queueKey (messageQueues s)
                then s\<lparr>messageQueues := AList.update queueKey [] (messageQueues s)\<rparr>
                else s);
          queue = queueOf s1 queueKey
      in if length queue \<ge> MAX_QUEUE_SIZE
         then (Inl (QueueFull (targetAgentId message)), s1)
         else
           let queue' = sort_key (\<lambda>a. priority (heap s1 a)) (queue @ [r]);
               s2 = s1\<lparr>messageQueues := AList.update queueKey queue' (messageQueues s1)\<rparr>;
               s3 = persistMessage r s2;
               s4 = emit ''message:queued'' r s3;
               s5 = startProcessing s4
           in (Inr r, s5))"

text \<open>
  A sequence of sends, as in the loop of \<open>broadcast\<close>: a send that throws is
  skipped, the messages queued are collected in order.
\<close>

fun sendAll :: "messenger \<Rightarrow> nat list \<Rightarrow> nat list \<times> messenger" where
  "sendAll s [] = ([], s)"
| "sendAll s (r # rs) =
     (case send s r of
        (Inl e, s1) \<Rightarrow> sendAll s1 rs
      | (Inr m, s1) \<Rightarrow> (let (queued, s2) = sendAll s1 rs in (m # queued, s2)))"

subsection \<open>Delivery\<close>

text \<open>
  What \<open>await this.emit("message:send", message)\<close> gives \<open>deliverMessage\<close>: a value
  whose \<open>delivered\<close> property is truthy, any other value, or an exception from a
  listener of \<open>message:send\<close> (with its message). It is a parameter of the model,
  a function of the message as it is at the attempt. The \<open>emit\<close> of a plain
  \<open>EventEmitter\<close> returns a boolean, which has no \<open>delivered\<close> property, and
  nothing in the sources overrides \<open>emit\<close>: the bus as shipped only ever sees
  \<open>NotDelivered\<close> and \<open>Threw\<close>.
\<close>

datatype send_outcome = Delivered | NotDelivered | Threw string

definition mutate :: "nat \<Rightarrow> (message \<Rightarrow> message) \<Rightarrow> messenger \<Rightarrow> messenger" where
  "mutate r f s = s\<lparr>heap := (heap s)(r := f (heap s r))\<rparr>"

subsection \<open>Stretches between awaits\<close>

text \<open>
  An \<open>async\<close> method runs without interruption up to its next \<open>await\<close>; there it
  is suspended, and other activations run before it resumes. \<open>processQueue\<close>,
  \<open>deliverMessage\<close>, \<open>send\<close>, \<open>markDelivered\<close> and \<open>markFailed\<close> all await
  \<open>persistMessage\<close> or \<open>deletePersistedMessage\<close> in the middle of their work, so
  each is taken apart at its awaits: a function for the stretch that runs when the
  method is called, and a function that resumes a suspended activation and runs it
  to its next \<open>await\<close> or to its end. The order in which suspended activations
  resume is the scheduler's; a run of the bus is a sequence of these steps.

  \<open>persistMessage\<close> serialises the message when it is called
  (\<open>JSON.stringify\<close>) and awaits \<open>fs.writeFile\<close>; the suspended activation keeps
  that text, and the file holds it when the activation resumes. An unlink, too,
  has happened when the activation that awaits it resumes.
\<close>

definition writeFile :: "message \<Rightarrow> messenger \<Rightarrow> messenger" where
  "writeFile data s =
     (if diskOk s then s\<lparr>files := AList.update (msg_id data) data (files s)\<rparr> else s)"

lemma messageQueues_simps [simp]:
  "messageQueues (persistMessage r s) = messageQueues s"
  "messageQueues (deletePersistedMessage i s) = messageQueues s"
  "messageQueues (emit n r s) = messageQueues s"
  "messageQueues (mutate r f s) = messageQueues s"
  "messageQueues (writeFile d s) = messageQueues s"
  by (simp_all add: persistMessage_def deletePersistedMessage_def emit_def mutate_def
      writeFile_def)

text \<open>\<open>queue.shift()\<close> on the array stored under \<open>queueKey\<close>.\<close>

definition shiftQueue :: "string \<Rightarrow> messenger \<Rightarrow> messenger" where
  "shiftQueue queueKey s =
     s\<lparr>messageQueues := AList.update queueKey (tl (queueOf s queueKey)) (messageQueues s)\<rparr>"

text \<open>
  The callback of the retry timer registered under \<open>messageId\<close>; a timer that was
  cleared is not in the table and does not fire.
\<close>

definition retryTimerFired :: "string \<Rightarrow> messenger \<Rightarrow> messenger" where
  "retryTimerFired messageId s =
     (case map_of (retryTimers s) messageId of
        None \<Rightarrow> s
      | Some (delay, r) \<Rightarrow>
          mutate r (\<lambda>m. m\<lparr>status := PENDING\<rparr>)
            (s\<lparr>retryTimers := AList.delete messageId (retryTimers s)\<rparr>))"

subsection \<open>The drain loop\<close>

text \<open>
  Where the activation of \<open>processQueue\<close> (with the \<open>deliverMessage\<close> it called)
  is suspended, for the head message \<open>r\<close>:

  \<^item> \<open>AwaitSend r delivered\<close>: in \<open>deliverMessage\<close>, at
    \<open>await this.emit("message:send", message)\<close>; \<open>delivered\<close> is whether
    \<open>result && result.delivered\<close> will hold;
  \<^item> \<open>AwaitDeliveredPersist r data\<close>, \<open>AwaitDeliveredDelete r messageId\<close>: in
    \<open>deliverMessage\<close>, at the two awaits of the delivered branch;
  \<^item> \<open>AwaitErrorPersist r data\<close>: in the \<open>catch\<close> block of \<open>deliverMessage\<close>;
  \<^item> \<open>AwaitDeliver r success\<close>: in \<open>processQueue\<close>, at
    \<open>await this.deliverMessage(message)\<close>, which has returned \<open>success\<close>;
  \<^item> \<open>AwaitFailedPersist r data\<close>, \<open>AwaitRetryPersist r data\<close>: in
    \<open>processQueue\<close>, at the \<open>await this.persistMessage(message)\<close> of the branch
    that gives up and of the branch that retries.

  \<open>data\<close> is the text that is being written. The activation also keeps the
  position \<open>loop_pos\<close> of the Map iterator (entries are only ever added at the end of
  \<open>messageQueues\<close>: \<open>clearQueue\<close> and \<open>shutdown\<close> are not modelled) and the
  flag \<open>processed\<close>.
\<close>

datatype drain_pc =
    AwaitSend nat bool
  | AwaitDeliveredPersist nat message
  | AwaitDeliveredDelete nat string
  | AwaitErrorPersist nat message
  | AwaitDeliver nat bool
  | AwaitFailedPersist nat message
  | AwaitRetryPersist nat message

record drain_loop =
  loop_pos :: nat
  loop_processed :: bool
  loop_pc :: drain_pc

text \<open>A pass of the \<open>for\<close> loop either reaches an \<open>await\<close> or runs to its end.\<close>

datatype scan = Suspended drain_loop messenger | PassDone bool messenger

text \<open>\<open>deliverMessage\<close> from its call to its first \<open>await\<close>.\<close>

definition deliverMessage ::
  "(message \<Rightarrow> send_outcome) \<Rightarrow> nat \<Rightarrow> messenger \<Rightarrow> drain_pc \<times> messenger" where
  "deliverMessage dv r s =
     (let s1 = emit ''message:send'' r (emit ''message:delivering'' r s)
      in case dv (heap s1 r) of
           Delivered \<Rightarrow> (AwaitSend r True, s1)
         | NotDelivered \<Rightarrow> (AwaitSend r False, s1)
         | Threw e \<Rightarrow>
             let s2 = mutate r (\<lambda>m. m\<lparr>error := Some e\<rparr>) s1
             in (AwaitErrorPersist r (heap s2 r), s2))"

lemma length_update_present:
  "k \<in> fst ` set al \<Longrightarrow> length (AList.update k v al) = length al"
  by (induction al) auto

lemma length_shiftQueue:
  "i < length (messageQueues s) \<Longrightarrow>
   length (messageQueues (shiftQueue (fst (messageQueues s ! i)) s)) = length (messageQueues s)"
  by (simp add: shiftQueue_def length_update_present)

text \<open>
  The \<open>for\<close> loop of \<open>processQueue\<close> from the entry at position \<open>i\<close>: empty queues
  are skipped, a head that is neither pending nor retrying is shifted out, and at
  the first head to deliver the loop calls \<open>deliverMessage\<close> and is suspended.
\<close>

function forLoop :: "(message \<Rightarrow> send_outcome) \<Rightarrow> nat \<Rightarrow> bool \<Rightarrow> messenger \<Rightarrow> scan" where
  "forLoop dv i processed s =
     (if length (messageQueues s) \<le> i then PassDone processed s
      else
        let queueKey = fst (messageQueues s ! i)
        in case queueOf s queueKey of
             [] \<Rightarrow> forLoop dv (Suc i) processed s
           | r # rest \<Rightarrow>
               if status (heap s r) \<noteq> PENDING \<and> status (heap s r) \<noteq> RETRYING
               then forLoop dv (Suc i) True (shiftQueue queueKey s)
               else
                 let (pc, s1) = deliverMessage dv r s
                 in Suspended \<lparr>loop_pos = i, loop_processed = processed, loop_pc = pc\<rparr> s1)"
  by pat_completeness auto
termination
  by (relation "measure (\<lambda>(dv, i, processed, s). length (messageQueues s) - i)")
     (auto simp: length_shiftQueue)

declare forLoop.simps [simp del]

text \<open>
  The \<open>while\<close> loop. A pass that ends with \<open>processed\<close> set has shifted a message
  out of a queue, so the number of queued messages is a measure for the passes
  that follow one another without an \<open>await\<close>.
\<close>

definition totalQueued :: "messenger \<Rightarrow> nat" where
  "totalQueued s = sum_list (map (\<lambda>(k, q). length q) (messageQueues s))"

lemma sum_update_tl:
  "map_of qs k = Some (r # rest) \<Longrightarrow>
   sum_list (map (\<lambda>(k, q). length q) (AList.update k rest qs))
     < sum_list (map (\<lambda>(k, q). length q) qs)"
  by (induction qs) (auto split: if_splits)

lemma totalQueued_shiftQueue:
  "queueOf s k = r # rest \<Longrightarrow> totalQueued (shiftQueue k s) < totalQueued s"
  using sum_update_tl [of "messageQueues s" k r rest]
  by (simp add: totalQueued_def shiftQueue_def queueOf_def split: option.splits)

lemma forLoop_total:
  "forLoop dv i p s = PassDone p' s' \<Longrightarrow>
     totalQueued s' \<le> totalQueued s \<and> (p' \<and> \<not> p \<longrightarrow> totalQueued s' < totalQueued s)"
proof (induction dv i p s rule: forLoop.induct)
  case (1 dv i p s)
  let ?k = "fst (messageQueues s ! i)"
  show ?case
  proof (cases "length (messageQueues s) \<le> i")
    case True
    with "1.prems" show ?thesis by (subst (asm) forLoop.simps) auto
  next
    case False
    show ?thesis
    proof (cases "queueOf s ?k")
      case Nil
      from "1.prems" False Nil have "forLoop dv (Suc i) p s = PassDone p' s'"
        by (subst (asm) forLoop.simps) simp
      from "1.IH"(1) [OF False refl Nil this] show ?thesis .
    next
      case (Cons r rest)
      show ?thesis
      proof (cases "status (heap s r) \<noteq> PENDING \<and> status (heap s r) \<noteq> RETRYING")
        case True
        from "1.prems" False Cons True
        have "forLoop dv (Suc i) True (shiftQueue ?k s) = PassDone p' s'"
          by (subst (asm) forLoop.simps) simp
        from "1.IH"(2) [OF False refl Cons True this] totalQueued_shiftQueue [OF Cons]
        show ?thesis by auto
      next
        case no: False
        from "1.prems" False Cons no show ?thesis
          by (subst (asm) forLoop.simps) (simp split: prod.splits)
      qed
    qed
  qed
qed

text \<open>
  \<open>processQueue\<close> from its call to its first \<open>await\<close>, or to its end when no head
  is to be delivered: then the flag is lowered and no activation is left.
\<close>

function processQueue ::
  "(message \<Rightarrow> send_outcome) \<Rightarrow> messenger \<Rightarrow> drain_loop option \<times> messenger" where
  "processQueue dv s =
     (if \<not> isProcessing s then (None, s)
      else case forLoop dv 0 False s of
             Suspended l s1 \<Rightarrow> (Some l, s1)
           | PassDone processed s1 \<Rightarrow>
               if \<not> processed then (None, s1\<lparr>isProcessing := False\<rparr>)
               else processQueue dv s1)"
  by pat_completeness auto
termination
proof (relation "measure (\<lambda>(dv, s). totalQueued s)")
  show "wf (measure (\<lambda>(dv, s). totalQueued s))" by simp
next
  fix dv s processed s1
  assume "forLoop dv 0 False s = PassDone processed s1" and "\<not> \<not> processed"
  then have "totalQueued s1 < totalQueued s"
    using forLoop_total [of dv 0 False s processed s1] by simp
  then show "((dv, s1), (dv, s)) \<in> measure (\<lambda>(dv, s). totalQueued s)" by simp
qed

declare processQueue.simps [simp del]

text \<open>What follows a pass of the \<open>for\<close> loop: the test of \<open>processed\<close>, and the next pass.\<close>

definition afterPass ::
  "(message \<Rightarrow> send_outcome) \<Rightarrow> scan \<Rightarrow> drain_loop option \<times> messenger" where
  "afterPass dv sc =
     (case sc of
        Suspended l s \<Rightarrow> (Some l, s)
      | PassDone processed s \<Rightarrow>
          if \<not> processed then (None, s\<lparr>isProcessing := False\<rparr>)
          else processQueue dv s)"

text \<open>
  The suspended loop resumes and runs to its next \<open>await\<close> or to its end. Everything
  is read from the state as it is now: the status and \<open>retryCount\<close> of the message,
  the retry timers, and the array of the queue, whose head \<open>queue.shift()\<close> removes
  whichever message that is by now.
\<close>

definition resumeLoop :: "(message \<Rightarrow> send_outcome) \<Rightarrow> drain_loop \<Rightarrow> messenger
     \<Rightarrow> drain_loop option \<times> messenger" where
  "resumeLoop dv l s =
     (let i = loop_pos l;
          queueKey = fst (messageQueues s ! i)
      in case loop_pc l of
           AwaitSend r delivered \<Rightarrow>
             if delivered then
               let s1 = mutate r (\<lambda>m. m\<lparr>status := DELIVERED, deliveredAt := Some (clock s)\<rparr>) s
               in (Some (l\<lparr>loop_pc := AwaitDeliveredPersist r (heap s1 r)\<rparr>), s1)
             else (Some (l\<lparr>loop_pc := AwaitDeliver r False\<rparr>), s)
         | AwaitDeliveredPersist r data \<Rightarrow>
             (Some (l\<lparr>loop_pc := AwaitDeliveredDelete r (msg_id (heap s r))\<rparr>), writeFile data s)
         | AwaitDeliveredDelete r messageId \<Rightarrow>
             (Some (l\<lparr>loop_pc := AwaitDeliver r True\<rparr>),
              emit ''message:delivered'' r (deletePersistedMessage messageId s))
         | AwaitErrorPersist r data \<Rightarrow>
             (Some (l\<lparr>loop_pc := AwaitDeliver r False\<rparr>),
              emit ''message:error'' r (writeFile data s))
         | AwaitDeliver r success \<Rightarrow>
             if success then afterPass dv (forLoop dv (Suc i) True (shiftQueue queueKey s))
             else if retryCount (heap s r) \<ge> MAX_RETRIES then
               let s1 = mutate r (\<lambda>m. m\<lparr>status := FAILED,
                                           error := Some ''Max retries exceeded''\<rparr>) s
               in (Some (l\<lparr>loop_pc := AwaitFailedPersist r (heap s1 r)\<rparr>), s1)
             else
               let s1 = mutate r (\<lambda>m. m\<lparr>status := RETRYING,
                                           retryCount := retryCount m + 1\<rparr>) s
               in (Some (l\<lparr>loop_pc := AwaitRetryPersist r (heap s1 r)\<rparr>), s1)
         | AwaitFailedPersist r data \<Rightarrow>
             let s1 = emit ''message:failed'' r (writeFile data s)
             in afterPass dv (forLoop dv (Suc i) True (shiftQueue queueKey s1))
         | AwaitRetryPersist r data \<Rightarrow>
             let s1 = writeFile data s;
                 delay = RETRY_DELAY_MS * 2 ^ (retryCount (heap s1 r) - 1);
                 s2 = (if \<not> has (msg_id (heap s1 r)) (retryTimers s1)
                       then s1\<lparr>retryTimers :=
                              AList.update (msg_id (heap s1 r)) (delay, r) (retryTimers s1)\<rparr>
                       else s1)
             in afterPass dv (PassDone (loop_processed l) s2))"

subsection \<open>send, markDelivered and markFailed, stretch by stretch\<close>

text \<open>
  \<open>send\<close> up to its \<open>await this.persistMessage(message)\<close>: the queue is created,
  checked, extended and sorted. (\<open>send\<close> above is this stretch and the next one
  with nothing in between, and without the loop that \<open>startProcessing\<close> starts.)
\<close>

definition sendEnqueue :: "messenger \<Rightarrow> nat \<Rightarrow> (messenger_error + nat) \<times> messenger" where
  "sendEnqueue s r =
     (let message = heap s r;
          queueKey = getQueueKey (targetAgentId message) (worktree message);
          s1 = (if \<not> has queueKey (messageQueues s)
                then s\<lparr>messageQueues := AList.update queueKey [] (messageQueues s)\<rparr>
                else s);
          queue = queueOf s1 queueKey
      in if length queue \<ge> MAX_QUEUE_SIZE
         then (Inl (QueueFull (targetAgentId message)), s1)
         else
           let queue' = sort_key (\<lambda>a. priority (heap s1 a)) (queue @ [r])
           in (Inr r, s1\<lparr>messageQueues := AList.update queueKey queue' (messageQueues s1)\<rparr>))"

fun findMessage :: "(nat \<Rightarrow> message) \<Rightarrow> string \<Rightarrow> (string \<times> nat list) list \<Rightarrow> nat option" where
  "findMessage h messageId [] = None"
| "findMessage h messageId ((queueKey, queue) # rest) =
     (case find (\<lambda>r. msg_id (h r) = messageId) queue of
        Some r \<Rightarrow> Some r
      | None \<Rightarrow> findMessage h messageId rest)"

definition clearRetryTimer :: "string \<Rightarrow> messenger \<Rightarrow> messenger" where
  "clearRetryTimer messageId s =
     (if has messageId (retryTimers s)
      then s\<lparr>retryTimers := AList.delete messageId (retryTimers s)\<rparr>
      else s)"

text \<open>
  The suspended activations of \<open>send\<close>, \<open>markDelivered\<close> and \<open>markFailed\<close>:

  \<^item> \<open>SendPersist r data\<close>: \<open>send\<close> at \<open>await this.persistMessage(message)\<close>;
  \<^item> \<open>MarkDeliveredPersist messageId r data\<close>, \<open>MarkDeliveredDelete messageId r\<close>:
    \<open>markDelivered\<close> at its first and at its second \<open>await\<close>;
  \<^item> \<open>MarkFailedPersist r data\<close>: \<open>markFailed\<close> at its \<open>await\<close>.
\<close>

datatype call_task =
    SendPersist nat message
  | MarkDeliveredPersist string nat message
  | MarkDeliveredDelete string nat
  | MarkFailedPersist nat message


text \<open>
  The bus with what is in flight: the state of the object, the activation of
  \<open>processQueue\<close> if one is suspended, and the suspended calls.
\<close>

record bus =
  msgr :: messenger
  loop :: "drain_loop option"
  calls :: "call_task list"

definition newBus :: "(nat \<Rightarrow> message) \<Rightarrow> bool \<Rightarrow> nat \<Rightarrow> bus" where
  "newBus h ok now = \<lparr>msgr = newMessenger h ok now, loop = None, calls = []\<rparr>"

definition resumeDrain :: "(message \<Rightarrow> send_outcome) \<Rightarrow> bus \<Rightarrow> bus" where
  "resumeDrain dv b =
     (case loop b of
        None \<Rightarrow> b
      | Some l \<Rightarrow> (let (l', s') = resumeLoop dv l (msgr b) in b\<lparr>msgr := s', loop := l'\<rparr>))"

text \<open>
  A call of \<open>send\<close>: what it will return or throw, and the bus with the call
  suspended. A call that throws leaves no activation.
\<close>

definition sendCall :: "nat \<Rightarrow> bus \<Rightarrow> (messenger_error + nat) \<times> bus" where
  "sendCall r b =
     (case sendEnqueue (msgr b) r of
        (Inl e, s1) \<Rightarrow> (Inl e, b\<lparr>msgr := s1\<rparr>)
      | (Inr m, s1) \<Rightarrow> (Inr m, b\<lparr>msgr := s1, calls := calls b @ [SendPersist r (heap s1 r)]\<rparr>))"

text \<open>
  A call of \<open>markDelivered\<close>, up to \<open>await this.persistMessage(message)\<close>: the
  message it will return (\<open>None\<close> is \<open>null\<close>: no queue holds the id, and the call
  is over), and the bus with the call suspended.
\<close>

definition markDelivered :: "string \<Rightarrow> bus \<Rightarrow> nat option \<times> bus" where
  "markDelivered messageId b =
     (let s0 = clearRetryTimer messageId (msgr b)
      in case findMessage (heap s0) messageId (messageQueues s0) of
           None \<Rightarrow> (None, b\<lparr>msgr := s0\<rparr>)
         | Some r \<Rightarrow>
             let s1 = mutate r (\<lambda>m. m\<lparr>status := DELIVERED, deliveredAt := Some (clock s0)\<rparr>) s0
             in (Some r,
                 b\<lparr>msgr := s1,
                   calls := calls b @ [MarkDeliveredPersist messageId r (heap s1 r)]\<rparr>))"

text \<open>
  A call of \<open>markFailed\<close> likewise. \<open>err\<close> is \<open>error?.message\<close>; an absent or
  empty one gives \<open>"Unknown error"\<close>.
\<close>

definition markFailed :: "string \<Rightarrow> string option \<Rightarrow> bus \<Rightarrow> nat option \<times> bus" where
  "markFailed messageId err b =
     (let s0 = clearRetryTimer messageId (msgr b)
      in case findMessage (heap s0) messageId (messageQueues s0) of
           None \<Rightarrow> (None, b\<lparr>msgr := s0\<rparr>)
         | Some r \<Rightarrow>
             let reason = (case err of None \<Rightarrow> ''Unknown error''
                            | Some e \<Rightarrow> (if e = [] then ''Unknown error'' else e));
                 s1 = mutate r (\<lambda>m. m\<lparr>status := FAILED, error := Some reason,
                                            failedAt := Some (clock s0)\<rparr>) s0
             in (Some r, b\<lparr>msgr := s1, calls := calls b @ [MarkFailedPersist r (heap s1 r)]\<rparr>))"

text \<open>
  The suspended call at position \<open>n\<close> resumes. \<open>send\<close> emits and calls
  \<open>startProcessing\<close>, which starts \<open>processQueue\<close> unless the flag is up;
  \<open>markDelivered\<close> goes on to its unlink and then emits; \<open>markFailed\<close> emits.
\<close>

definition resumeCall :: "(message \<Rightarrow> send_outcome) \<Rightarrow> nat \<Rightarrow> bus \<Rightarrow> bus" where
  "resumeCall dv n b =
     (if length (calls b) \<le> n then b
      else
        let s = msgr b;
            others = take n (calls b) @ drop (Suc n) (calls b)
        in case calls b ! n of
             SendPersist r data \<Rightarrow>
               let s1 = emit ''message:queued'' r (writeFile data s)
               in if isProcessing s1 then b\<lparr>msgr := s1, calls := others\<rparr>
                  else (let (l, s2) = processQueue dv (startProcessing s1)
                        in b\<lparr>msgr := s2, loop := l, calls := others\<rparr>)
           | MarkDeliveredPersist messageId r data \<Rightarrow>
               b\<lparr>msgr := writeFile data s,
                 calls := (calls b)[n := MarkDeliveredDelete messageId r]\<rparr>
           | MarkDeliveredDelete messageId r \<Rightarrow>
               b\<lparr>msgr := emit ''message:delivered'' r (deletePersistedMessage messageId s),
                 calls := others\<rparr>
           | MarkFailedPersist r data \<Rightarrow>
               b\<lparr>msgr := emit ''message:failed'' r (writeFile data s), calls := others\<rparr>)"

section \<open>The supervisor: agent-isolation.js\<close>

subsection \<open>Data\<close>

definition MAX_CONCURRENT_AGENTS :: nat where "MAX_CONCURRENT_AGENTS = 10"
definition AGENT_MEMORY_LIMIT_MB :: real where "AGENT_MEMORY_LIMIT_MB = 512"

text \<open>
  The supervisor calls \<open>spawn\<close> (imported as \<open>spawnWorktreeAgent\<close>),
  \<open>startAgentProcess\<close>, \<open>terminateAgent\<close>, \<open>failAgent\<close> and \<open>completeAgent\<close> of
  \<open>git-worktree-service.js\<close>. The model records each call with its arguments (the
  agent name or id, the message of the error, the exit code), and takes what an
  awaited call gives back, a value or a rejection with its message, as an argument.
\<close>

datatype service_call =
    SpawnWorktreeAgent string
  | StartAgentProcess string
  | TerminateAgent string
  | FailAgent string string
  | CompleteAgent string int

datatype 'a awaited = Rejected string | Resolved 'a

text \<open>The events the supervisor emits, with their payloads.\<close>

datatype iso_event =
    AgentSpawning string string string
  | AgentSpawned string string string "nat option"
  | AgentSpawnFailed "string option" string
  | AgentTimeout string
  | AgentExit string "int option" "string option"
  | AgentError string string
  | AgentTerminating string string

record child_process =
  pid :: "nat option"

record monitor =
  startTime :: nat
  maxMemory :: real
  cpuSamples :: "real list"

record worktree_agent =
  wa_id :: string
  worktreePath :: string
  branchName :: string

record spawned =
  sp_agentId :: string
  sp_pid :: "nat option"
  sp_worktreePath :: string
  sp_branchName :: string
  sp_status :: string

record process_stats =
  memoryMB :: real
  cpuPercent :: real

text \<open>
  \<open>timeoutHandles\<close> holds the agents whose wall-clock timer is armed;
  \<open>iso_events\<close> and \<open>service_calls\<close> are logs, oldest first.
\<close>

record isolation =
  activeProcesses :: "(string \<times> child_process) list"
  resourceMonitors :: "(string \<times> monitor) list"
  isMonitoring :: bool
  timeoutHandles :: "string list"
  iso_events :: "iso_event list"
  service_calls :: "service_call list"

definition newIsolation :: isolation where
  "newIsolation = \<lparr>activeProcesses = [], resourceMonitors = [], isMonitoring = False,
     timeoutHandles = [], iso_events = [], service_calls = []\<rparr>"

definition iso_emit :: "iso_event \<Rightarrow> isolation \<Rightarrow> isolation" where
  "iso_emit e s = s\<lparr>iso_events := iso_events s @ [e]\<rparr>"

definition call :: "service_call \<Rightarrow> isolation \<Rightarrow> isolation" where
  "call c s = s\<lparr>service_calls := service_calls s @ [c]\<rparr>"

subsection \<open>Numbers and null in template literals\<close>

text \<open>The decimal digits of a number, most significant first, in front of \<open>acc\<close>.\<close>

definition digit :: "nat \<Rightarrow> char" where
  "digit d = ''0123456789'' ! d"

fun digits :: "nat \<Rightarrow> string \<Rightarrow> string" where
  "digits n acc =
     (if n < 10 then digit n # acc else digits (n div 10) (digit (n mod 10) # acc))"

definition js_number :: "int \<Rightarrow> string" where
  "js_number i = (if 0 \<le> i then digits (nat i) [] else CHR ''-'' # digits (nat (- i)) [])"

definition show_code :: "int option \<Rightarrow> string" where
  "show_code code = (case code of None \<Rightarrow> ''null'' | Some c \<Rightarrow> js_number c)"

definition show_signal :: "string option \<Rightarrow> string" where
  "show_signal signal = (case signal of None \<Rightarrow> ''null'' | Some sg \<Rightarrow> sg)"

subsection \<open>Resource monitoring and termination\<close>

text \<open>\<open>if (!childProcess.pid) return\<close>: a pid that is absent or 0 is falsy.\<close>

definition startResourceMonitoring :: "string \<Rightarrow> child_process \<Rightarrow> nat \<Rightarrow> isolation \<Rightarrow> isolation" where
  "startResourceMonitoring agentId childProcess now s =
     (if pid childProcess = None \<or> pid childProcess = Some 0 then s
      else
        s\<lparr>resourceMonitors :=
             AList.update agentId \<lparr>startTime = now, maxMemory = 0, cpuSamples = []\<rparr>
               (resourceMonitors s),
          isMonitoring := True\<rparr>)"

definition stopResourceMonitoring :: "string \<Rightarrow> isolation \<Rightarrow> isolation" where
  "stopResourceMonitoring agentId s =
     (case map_of (resourceMonitors s) agentId of
        None \<Rightarrow> s
      | Some m \<Rightarrow>
          let ms = AList.delete agentId (resourceMonitors s)
          in s\<lparr>resourceMonitors := ms,
               isMonitoring := (if length ms = 0 then False else isMonitoring s)\<rparr>)"

text \<open>
  \<open>terminateAgent\<close> of the supervisor; \<open>svc\<close> is what the awaited
  \<open>terminateAgent\<close> of the worktree service gives. The result is the pair
  \<open>{success, reason}\<close>.
\<close>

definition terminateAgent ::
  "string \<Rightarrow> string \<Rightarrow> unit awaited \<Rightarrow> isolation \<Rightarrow> (bool \<times> string) \<times> isolation" where
  "terminateAgent agentId reason svc s =
     (if \<not> has agentId (activeProcesses s) then ((False, ''not_found''), s)
      else
        let s1 = iso_emit (AgentTerminating agentId reason) s;
            s2 = call (TerminateAgent agentId) s1
        in case svc of
             Resolved u \<Rightarrow> ((True, reason), s2)
           | Rejected e \<Rightarrow> ((False, e), s2))"

text \<open>
  The sample is pushed on the monitor the closure captured, which is the monitor
  registered under \<open>agentId\<close> for as long as the interval runs.
\<close>

definition recordSample :: "string \<Rightarrow> process_stats \<Rightarrow> isolation \<Rightarrow> isolation" where
  "recordSample agentId stats s =
     (case map_of (resourceMonitors s) agentId of
        None \<Rightarrow> s
      | Some m \<Rightarrow>
          let samples = cpuSamples m @ [cpuPercent stats];
              m' = m\<lparr>maxMemory := max (maxMemory m) (memoryMB stats),
                     cpuSamples := (if length samples > 60 then tl samples else samples)\<rparr>
          in s\<lparr>resourceMonitors := AList.update agentId m' (resourceMonitors s)\<rparr>)"

text \<open>
  \<open>checkResources\<close>, the callback of the sampling interval; \<open>sample\<close> is what the
  awaited \<open>getProcessStats\<close> gives.
\<close>

definition checkResources ::
  "string \<Rightarrow> process_stats awaited \<Rightarrow> unit awaited \<Rightarrow> isolation \<Rightarrow> isolation" where
  "checkResources agentId sample svc s =
     (case sample of
        Rejected e \<Rightarrow> s
      | Resolved stats \<Rightarrow>
          let s1 = recordSample agentId stats s
          in if memoryMB stats > AGENT_MEMORY_LIMIT_MB
             then snd (terminateAgent agentId ''memory_limit_exceeded'' svc s1)
             else s1)"

subsection \<open>Process handlers\<close>

text \<open>\<open>setupProcessHandlers\<close> arms the wall-clock timer; the handlers follow.\<close>

definition setupProcessHandlers :: "string \<Rightarrow> isolation \<Rightarrow> isolation" where
  "setupProcessHandlers agentId s = s\<lparr>timeoutHandles := timeoutHandles s @ [agentId]\<rparr>"

definition onTimeout :: "string \<Rightarrow> unit awaited \<Rightarrow> isolation \<Rightarrow> isolation" where
  "onTimeout agentId svc s =
     snd (terminateAgent agentId ''timeout'' svc
            (iso_emit (AgentTimeout agentId)
               (s\<lparr>timeoutHandles := removeAll agentId (timeoutHandles s)\<rparr>)))"

definition detach :: "string \<Rightarrow> isolation \<Rightarrow> isolation" where
  "detach agentId s =
     stopResourceMonitoring agentId
       (s\<lparr>timeoutHandles := removeAll agentId (timeoutHandles s),
          activeProcesses := AList.delete agentId (activeProcesses s)\<rparr>)"

text \<open>The handler of the child's \<open>exit\<close> event, with the exit code and the signal.\<close>

definition onExit :: "string \<Rightarrow> int option \<Rightarrow> string option \<Rightarrow> isolation \<Rightarrow> isolation" where
  "onExit agentId code signal s =
     (let s1 = iso_emit (AgentExit agentId code signal) (detach agentId s)
      in if code = Some 0
         then call (CompleteAgent agentId 0) s1
         else call (FailAgent agentId
                      (''Process exited with code '' @ show_code code
                         @ '', signal: '' @ show_signal signal)) s1)"

text \<open>The handler of the child's \<open>error\<close> event, with the message of the error.\<close>

definition onError :: "string \<Rightarrow> string \<Rightarrow> isolation \<Rightarrow> isolation" where
  "onError agentId msg s =
     call (FailAgent agentId msg) (iso_emit (AgentError agentId msg) (detach agentId s))"

subsection \<open>spawnAgentInIsolation\<close>

text \<open>
  \<open>spawnAgentInIsolation\<close> awaits the worktree service twice, for the worktree
  and for the process. Between two awaits the code runs without interruption, and
  while a call waits for the service other calls and handlers run. So each stretch is
  a transition: \<open>spawnEnter\<close> up to the first await (the capacity
  check and the call of \<open>spawnWorktreeAgent\<close>), \<open>spawnWorktreeDone\<close> from its result
  to the second await (the call of \<open>startAgentProcess\<close>), \<open>spawnProcessDone\<close> from
  its result to the return. A thrown error is \<open>Inl\<close> of its message.
\<close>

definition spawnEnter :: "string \<Rightarrow> isolation \<Rightarrow> (string + unit) \<times> isolation" where
  "spawnEnter agentName s =
     (let activeCount = length (activeProcesses s)
      in if activeCount \<ge> MAX_CONCURRENT_AGENTS
         then (Inl (''Maximum concurrent agents (''
                     @ digits MAX_CONCURRENT_AGENTS [] @ '') reached''), s)
         else (Inr (), call (SpawnWorktreeAgent agentName) s))"

definition spawnWorktreeDone ::
  "string \<Rightarrow> worktree_agent awaited \<Rightarrow> isolation \<Rightarrow> (string + worktree_agent) \<times> isolation" where
  "spawnWorktreeDone agentName wt s =
     (case wt of
        Rejected e \<Rightarrow> (Inl e, iso_emit (AgentSpawnFailed None e) s)
      | Resolved agent \<Rightarrow>
          (Inr agent,
           call (StartAgentProcess (wa_id agent))
             (iso_emit (AgentSpawning (wa_id agent) agentName (worktreePath agent)) s)))"

definition spawnProcessDone ::
  "string \<Rightarrow> worktree_agent \<Rightarrow> child_process awaited \<Rightarrow> nat \<Rightarrow> isolation
     \<Rightarrow> (string + spawned) \<times> isolation" where
  "spawnProcessDone agentName agent cp now s =
     (case cp of
        Rejected e \<Rightarrow>
          (Inl e,
           call (FailAgent (wa_id agent) e)
             (iso_emit (AgentSpawnFailed (Some (wa_id agent)) e) s))
      | Resolved childProcess \<Rightarrow>
          let s1 = s\<lparr>activeProcesses :=
                       AList.update (wa_id agent) childProcess (activeProcesses s)\<rparr>;
              s2 = setupProcessHandlers (wa_id agent) s1;
              s3 = startResourceMonitoring (wa_id agent) childProcess now s2;
              s4 = iso_emit (AgentSpawned (wa_id agent) agentName (worktreePath agent)
                               (pid childProcess)) s3
          in (Inr \<lparr>sp_agentId = wa_id agent, sp_pid = pid childProcess,
                    sp_worktreePath = worktreePath agent, sp_branchName = branchName agent,
                    sp_status = ''active''\<rparr>, s4))"

text \<open>A call that nothing interleaves with: the three stretches in a row.\<close>

definition spawnAgentInIsolation ::
  "string \<Rightarrow> worktree_agent awaited \<Rightarrow> child_process awaited \<Rightarrow> nat \<Rightarrow> isolation
     \<Rightarrow> (string + spawned) \<times> isolation" where
  "spawnAgentInIsolation agentName wt cp now s =
     (case spawnEnter agentName s of
        (Inl e, s1) \<Rightarrow> (Inl e, s1)
      | (Inr u, s1) \<Rightarrow>
          (case spawnWorktreeDone agentName wt s1 of
             (Inl e, s2) \<Rightarrow> (Inl e, s2)
           | (Inr agent, s2) \<Rightarrow> spawnProcessDone agentName agent cp now s2))"

section \<open>The registry: AgentRegistry\<close>

subsection \<open>Data\<close>

text \<open>
  What \<open>register\<close> receives and what \<open>JSON.parse\<close> returns is any JavaScript
  value; the model has the JSON values, with integers for the numbers. A property
  that is absent reads as \<open>undefined\<close>, here \<open>None\<close>.
\<close>

datatype json =
    JNull
  | JBool bool
  | JNum int
  | JStr string
  | JArr "json list"
  | JObj "(string \<times> json) list"

record agent =
  agent_id :: string
  agent_worktree :: string
  branch :: string
  agent_status :: string
  skillset :: "string list"
  persona :: string
  agent_pid :: "int option"
  agent_startTime :: "int option"
  endTime :: "int option"
  exitCode :: "int option"
  exitSignal :: "string option"
  metadata :: json

definition MAX_REGISTRY_SIZE :: nat where "MAX_REGISTRY_SIZE = 1000"

definition VALID_STATUSES :: "string list" where
  "VALID_STATUSES = [''pending'', ''active'', ''completed'', ''failed'', ''terminating'']"

text \<open>
  \<open>agents\<close> is the Map from id to record; \<open>isDirty\<close> is raised by \<open>markDirty\<close>,
  which starts the write of the registry file in the background; \<open>reg_events\<close> is
  the log of emitted events, each with the record passed.
\<close>

record registry =
  agents :: "(string \<times> agent) list"
  isDirty :: bool
  reg_events :: "(string \<times> agent) list"

definition newRegistry :: registry where
  "newRegistry = \<lparr>agents = [], isDirty = False, reg_events = []\<rparr>"

subsection \<open>normalizeAgentData\<close>

text \<open>
  The strings of the model are sequences of UTF-8 bytes. \<open>String.prototype.trim\<close>
  strips at both ends the white space and the line terminators of ECMAScript:
  U+0009 to U+000D, U+0020, U+00A0, U+1680, U+2000 to U+200A, U+2028, U+2029,
  U+202F, U+205F, U+3000 and U+FEFF.
\<close>

definition whiteSpace :: "string list" where
  "whiteSpace =
     map (\<lambda>c. [c]) [CHR 0x09, CHR 0x0A, CHR 0x0B, CHR 0x0C, CHR 0x0D, CHR 0x20]
     @ [[CHR 0xC2, CHR 0xA0], [CHR 0xE1, CHR 0x9A, CHR 0x80]]
     @ map (\<lambda>c. [CHR 0xE2, CHR 0x80, c])
         [CHR 0x80, CHR 0x81, CHR 0x82, CHR 0x83, CHR 0x84, CHR 0x85, CHR 0x86, CHR 0x87,
          CHR 0x88, CHR 0x89, CHR 0x8A, CHR 0xA8, CHR 0xA9, CHR 0xAF]
     @ [[CHR 0xE2, CHR 0x81, CHR 0x9F], [CHR 0xE3, CHR 0x80, CHR 0x80],
        [CHR 0xEF, CHR 0xBB, CHR 0xBF]]"

text \<open>\<open>s\<close> without the longest run of sequences of \<open>ws\<close> that it starts with.\<close>

function stripStart :: "string list \<Rightarrow> string \<Rightarrow> string" where
  "stripStart ws s =
     (case find (\<lambda>w. w \<noteq> [] \<and> take (length w) s = w) ws of
        None \<Rightarrow> s
      | Some w \<Rightarrow> stripStart ws (drop (length w) s))"
  by pat_completeness auto
termination
proof (relation "measure (\<lambda>(ws, s). length s)")
  show "wf (measure (\<lambda>(ws, s). length s))" by simp
next
  fix ws :: "string list" and s w :: string
  assume "find (\<lambda>w. w \<noteq> [] \<and> take (length w) s = w) ws = Some w"
  then have w: "w \<noteq> []" and "take (length w) s = w" by (auto simp: find_Some_iff)
  then have "s \<noteq> []" by auto
  with w show "((ws, drop (length w) s), (ws, s)) \<in> measure (\<lambda>(ws, s). length s)" by simp
qed

declare stripStart.simps [simp del]

definition trim :: "string \<Rightarrow> string" where
  "trim s = rev (stripStart (map rev whiteSpace) (rev (stripStart whiteSpace s)))"

definition field :: "json \<Rightarrow> string \<Rightarrow> json option" where
  "field raw name = (case raw of JObj kvs \<Rightarrow> map_of kvs name | _ \<Rightarrow> None)"

text \<open>\<open>typeof v === "object"\<close> for a value that is not \<open>null\<close>.\<close>

fun is_object :: "json \<Rightarrow> bool" where
  "is_object (JObj kvs) = True"
| "is_object (JArr vs) = True"
| "is_object v = False"

text \<open>\<open>typeof raw.f === "string" ? raw.f.trim() : ""\<close>\<close>

definition trimmed_string :: "json \<Rightarrow> string \<Rightarrow> string" where
  "trimmed_string raw name = (case field raw name of Some (JStr v) \<Rightarrow> trim v | _ \<Rightarrow> [])"

text \<open>\<open>typeof raw.f === "number" && raw.f > 0 ? raw.f : null\<close>\<close>

definition positive_number :: "json \<Rightarrow> string \<Rightarrow> int option" where
  "positive_number raw name =
     (case field raw name of Some (JNum n) \<Rightarrow> (if n > 0 then Some n else None) | _ \<Rightarrow> None)"

fun string_of_json :: "json \<Rightarrow> string option" where
  "string_of_json (JStr v) = Some v"
| "string_of_json v = None"

definition normalize_skillset :: "json \<Rightarrow> string list" where
  "normalize_skillset raw =
     (case field raw ''skillset'' of
        Some (JArr vs) \<Rightarrow>
          (if list_all (\<lambda>v. string_of_json v \<noteq> None) vs
           then map trim (List.map_filter string_of_json vs)
           else [])
      | _ \<Rightarrow> [])"

definition normalizeAgentData :: "json \<Rightarrow> agent option" where
  "normalizeAgentData raw =
     (if \<not> is_object raw then None
      else
        let ident = trimmed_string raw ''id'';
            wt = trimmed_string raw ''worktree'';
            br = trimmed_string raw ''branch'';
            st = trimmed_string raw ''status'';
            sk = normalize_skillset raw;
            pe = trimmed_string raw ''persona''
        in if ident = [] \<or> wt = [] \<or> st \<notin> set VALID_STATUSES then None
           else Some
             \<lparr>agent_id = ident, agent_worktree = wt, branch = br, agent_status = st,
              skillset = sk, persona = pe,
              agent_pid = positive_number raw ''pid'',
              agent_startTime = positive_number raw ''startTime'',
              endTime = positive_number raw ''endTime'',
              exitCode = (case field raw ''exitCode'' of Some (JNum n) \<Rightarrow> Some n | _ \<Rightarrow> None),
              exitSignal = (case field raw ''exitSignal'' of Some (JStr v) \<Rightarrow> Some v
                             | _ \<Rightarrow> None),
              metadata = (case field raw ''metadata'' of
                            Some v \<Rightarrow> (if is_object v then v else JObj [])
                          | None \<Rightarrow> JObj [])\<rparr>)"

subsection \<open>loadFromDisk\<close>

text \<open>
  What \<open>fs.readFile\<close> gives: an error with its \<open>code\<close>, or the text of the file.
  \<open>JSON.parse\<close> is a parameter \<open>parse\<close>, \<open>None\<close> where it throws a
  \<open>SyntaxError\<close>.
\<close>

datatype read_result = ReadError string | FileData string

datatype js_error = FsError string | SyntaxError | Error string

definition loadEntry :: "json \<Rightarrow> registry \<Rightarrow> registry" where
  "loadEntry entry s =
     (case normalizeAgentData entry of
        Some normalized \<Rightarrow> s\<lparr>agents := AList.update (agent_id normalized) normalized (agents s)\<rparr>
      | None \<Rightarrow> s)"

text \<open>The body of the \<open>try\<close> block: \<open>Inl\<close> is the exception that leaves it.\<close>

definition loadFromDisk_try ::
  "(string \<Rightarrow> json option) \<Rightarrow> read_result \<Rightarrow> registry \<Rightarrow> js_error + registry" where
  "loadFromDisk_try parse rr s =
     (case rr of
        ReadError code \<Rightarrow> Inl (FsError code)
      | FileData d \<Rightarrow>
          (case parse d of
             None \<Rightarrow> Inl SyntaxError
           | Some (JArr entries) \<Rightarrow> Inr (fold loadEntry entries (s\<lparr>agents := []\<rparr>))
           | Some parsed \<Rightarrow> Inr (s\<lparr>agents := []\<rparr>)))"

text \<open>
  With the \<open>catch\<close> clause, which clears the map for \<open>ENOENT\<close> and for every other
  error alike. \<open>Inl\<close> would be an exception that leaves \<open>loadFromDisk\<close>.
\<close>

definition loadFromDisk ::
  "(string \<Rightarrow> json option) \<Rightarrow> read_result \<Rightarrow> registry \<Rightarrow> js_error + registry" where
  "loadFromDisk parse rr s =
     (case loadFromDisk_try parse rr s of
        Inr s' \<Rightarrow> Inr s'
      | Inl e \<Rightarrow> Inr (s\<lparr>agents := []\<rparr>))"

subsection \<open>register, unregister, get\<close>

definition reg_emit :: "string \<Rightarrow> agent \<Rightarrow> registry \<Rightarrow> registry" where
  "reg_emit name a s = s\<lparr>reg_events := reg_events s @ [(name, a)]\<rparr>"

definition markDirty :: "registry \<Rightarrow> registry" where
  "markDirty s = (if \<not> isDirty s then s\<lparr>isDirty := True\<rparr> else s)"

definition isTerminated :: "agent \<Rightarrow> bool" where
  "isTerminated a =
     (agent_status a = ''completed'' \<or> agent_status a = ''failed''
        \<or> agent_status a = ''terminating'')"

definition prune :: "string \<Rightarrow> registry \<Rightarrow> registry" where
  "prune ident s =
     (case map_of (agents s) ident of
        None \<Rightarrow> s
      | Some a \<Rightarrow> reg_emit ''agent:pruned'' a (s\<lparr>agents := AList.delete ident (agents s)\<rparr>))"

definition cleanupOldAgents :: "int \<Rightarrow> registry \<Rightarrow> registry" where
  "cleanupOldAgents now s =
     (let maxAge = 24 * 60 * 60 * 1000;
          toRemove = map fst
            (filter (\<lambda>(ident, a). isTerminated a
                       \<and> now - (case endTime a of None \<Rightarrow> now | Some e \<Rightarrow> e) > maxAge)
               (agents s));
          s1 = fold prune toRemove s
      in if length toRemove > 0 then markDirty s1 else s1)"

text \<open>\<open>now\<close> is \<open>Date.now()\<close>; the record returned is the one stored.\<close>

definition register :: "int \<Rightarrow> json \<Rightarrow> registry \<Rightarrow> (js_error + agent) \<times> registry" where
  "register now agentData s =
     (case normalizeAgentData agentData of
        None \<Rightarrow> (Inl (Error ''Invalid agent data''), s)
      | Some n \<Rightarrow>
          let s1 = (if length (agents s) \<ge> MAX_REGISTRY_SIZE then cleanupOldAgents now s else s);
              previousStatus = map_option agent_status (map_of (agents s1) (agent_id n));
              normalized = n\<lparr>agent_startTime :=
                              Some (case agent_startTime n of None \<Rightarrow> now | Some t \<Rightarrow> t)\<rparr>;
              s2 = s1\<lparr>agents := AList.update (agent_id normalized) normalized (agents s1)\<rparr>;
              s3 = reg_emit ''agent:registered'' normalized s2;
              s4 = (case previousStatus of
                      None \<Rightarrow> s3
                    | Some p \<Rightarrow>
                        if p \<noteq> [] \<and> p \<noteq> agent_status normalized
                        then reg_emit (''agent:'' @ p @ '':->:'' @ agent_status normalized)
                               normalized s3
                        else s3)
          in (Inr normalized, markDirty s4))"

definition unregister :: "string \<Rightarrow> registry \<Rightarrow> agent option \<times> registry" where
  "unregister ident s =
     (case map_of (agents s) ident of
        None \<Rightarrow> (None, s)
      | Some existing \<Rightarrow>
          (Some existing,
           markDirty (reg_emit ''agent:unregistered'' existing
                        (s\<lparr>agents := AList.delete ident (agents s)\<rparr>))))"

text \<open>\<open>get\<close>: the record, or \<open>null\<close> (here \<open>None\<close>).\<close>

definition get :: "registry \<Rightarrow> string \<Rightarrow> agent option" where
  "get s ident = map_of (agents s) ident"

section \<open>Example states\<close>

text \<open>A bus whose queue for agent \<open>a\<close> (no worktree) holds 1000 messages.\<close>

definition fullQueue :: messenger where
  "fullQueue =
     (newMessenger (\<lambda>r. createMessage ''m'' 0 ''task'' ''lead'' ''a'' [] 2 None 30000) True 0)
       \<lparr>messageQueues := [(''default:a'', replicate 1000 0)]\<rparr>"


text \<open>
  Delivery that never succeeds: what the bus as shipped sees when no listener of
  \<open>message:send\<close> throws.
\<close>

definition neverDelivers :: "message \<Rightarrow> send_outcome" where
  "neverDelivers m = NotDelivered"

text \<open>
  Six message objects with ids \<open>m0\<close> to \<open>m5\<close>: 0 and 5 are for agent \<open>a\<close>, the
  others for agent \<open>b\<close>; 5 has priority CRITICAL, the others NORMAL.
\<close>

definition sixMessages :: "nat \<Rightarrow> message" where
  "sixMessages r =
     createMessage
       (if r = 0 then ''m0'' else if r = 1 then ''m1'' else if r = 2 then ''m2''
        else if r = 3 then ''m3'' else if r = 5 then ''m5'' else ''m4'')
       0 ''task'' ''lead'' (if r = 0 \<or> r = 5 then ''a'' else ''b'') []
       (if r = 5 then 0 else 2) None 30000"

text \<open>
  \<open>sendDone\<close>: a call of \<open>send\<close> whose write completes before anything else
  happens. \<open>attempt\<close>: the loop resumes three times, which takes it through one
  failed attempt: \<open>deliverMessage\<close> returns \<open>false\<close>, the loop marks the message
  and calls \<open>persistMessage\<close>, and after the write the pass ends.
\<close>

definition sendDone :: "nat \<Rightarrow> bus \<Rightarrow> bus" where
  "sendDone r b = resumeCall neverDelivers 0 (snd (sendCall r b))"

definition attempt :: "bus \<Rightarrow> bus" where
  "attempt b = resumeDrain neverDelivers (resumeDrain neverDelivers (resumeDrain neverDelivers b))"

text \<open>
  A run in which no timer fires. \<open>idle1\<close>: a new bus after \<open>send(m0)\<close> and the
  attempt it starts. \<open>idle2\<close>, \<open>idle3\<close>: after \<open>send(m1)\<close> and \<open>send(m2)\<close>, to
  another agent, each with the attempt it starts. \<open>exhaustedHead\<close>: after
  \<open>send(m3)\<close>, when \<open>deliverMessage\<close> has returned \<open>false\<close> to the loop once more.
  \<open>exhausting\<close>: the loop has resumed and awaits \<open>persistMessage\<close>.
  \<open>failedOut\<close>: the loop has resumed after the write.
\<close>

definition idle1 :: bus where
  "idle1 = attempt (sendDone 0 (newBus sixMessages True 0))"

definition idle2 :: bus where
  "idle2 = attempt (sendDone 1 idle1)"

definition idle3 :: bus where
  "idle3 = attempt (sendDone 2 idle2)"

definition exhaustedHead :: bus where
  "exhaustedHead = resumeDrain neverDelivers (sendDone 3 idle3)"

definition exhausting :: bus where
  "exhausting = resumeDrain neverDelivers exhaustedHead"


text \<open>
  \<open>overtaken\<close>: as \<open>failedOut\<close>, but \<open>send(m5)\<close> is called while the loop awaits
  \<open>persistMessage\<close>.
\<close>

definition overtaken :: bus where
  "overtaken = resumeDrain neverDelivers (snd (sendCall 5 exhausting))"





text \<open>A supervisor with nine active agents, and the agents two more spawns create.\<close>

definition running :: "nat \<Rightarrow> child_process" where
  "running p = \<lparr>pid = Some p\<rparr>"

definition nineActive :: isolation where
  "nineActive = newIsolation\<lparr>activeProcesses :=
     [(''agent-1'', running 101), (''agent-2'', running 102), (''agent-3'', running 103),
      (''agent-4'', running 104), (''agent-5'', running 105), (''agent-6'', running 106),
      (''agent-7'', running 107), (''agent-8'', running 108), (''agent-9'', running 109)]\<rparr>"

definition agentA :: worktree_agent where
  "agentA = \<lparr>wa_id = ''agent-A'', worktreePath = ''/wt/A'', branchName = ''agent/A''\<rparr>"

definition agentB :: worktree_agent where
  "agentB = \<lparr>wa_id = ''agent-B'', worktreePath = ''/wt/B'', branchName = ''agent/B''\<rparr>"

text \<open>
  Two calls of \<open>spawnAgentInIsolation\<close> that overlap, with nine agents active: the
  second call enters while the first awaits the worktree service.
\<close>

definition overlappingSpawns :: isolation where
  "overlappingSpawns =
     (let s1 = snd (spawnEnter ''A'' nineActive);
          s2 = snd (spawnEnter ''B'' s1);
          s3 = snd (spawnWorktreeDone ''A'' (Resolved agentA) s2);
          s4 = snd (spawnWorktreeDone ''B'' (Resolved agentB) s3);
          s5 = snd (spawnProcessDone ''A'' agentA (Resolved (running 201)) 0 s4);
          s6 = snd (spawnProcessDone ''B'' agentB (Resolved (running 202)) 0 s5)
      in s6)"

text \<open>A supervisor after one spawn: agent \<open>agent-A\<close> is active and monitored.\<close>

definition oneMonitored :: isolation where
  "oneMonitored = snd (spawnAgentInIsolation ''A'' (Resolved agentA) (Resolved (running 201)) 0 newIsolation)"

text \<open>
  A worker record as a caller passes it (untrimmed), its normal form, and a parser
  that knows three texts.
\<close>

definition workerOne :: json where
  "workerOne = JObj [(''id'', JStr '' w1 ''), (''worktree'', JStr ''/wt/1''),
     (''branch'', JStr ''agent/one''), (''status'', JStr ''active''), (''pid'', JNum 42),
     (''skillset'', JArr [JStr ''review '', JStr ''test''])]"

definition workerOneRecord :: agent where
  "workerOneRecord =
     \<lparr>agent_id = ''w1'', agent_worktree = ''/wt/1'', branch = ''agent/one'',
      agent_status = ''active'', skillset = [''review'', ''test''], persona = [],
      agent_pid = Some 42, agent_startTime = None, endTime = None, exitCode = None,
      exitSignal = None, metadata = JObj []\<rparr>"

definition parseExample :: "string \<Rightarrow> json option" where
  "parseExample d =
     (if d = ''[w1, null, x]'' then Some (JArr [workerOne, JNull, JObj [(''id'', JStr ''x'')]])
      else if d = ''{}'' then Some (JObj [])
      else None)"

section \<open>Properties of the message bus\<close>

lemma has_iff: "has k al \<longleftrightarrow> map_of al k \<noteq> None"
  by (simp add: has_def split: option.splits)

text \<open>
  C10. For every agent id, the key of a message with no worktree is the key of a
  message whose worktree is the string \<open>default\<close>: the two share one queue.
\<close>

theorem getQueueKey_default_collision:
  "getQueueKey agentId None = getQueueKey agentId (Some ''default'')"
  by (simp add: getQueueKey_def)
lemma queueOf_full: "length (queueOf s k) \<ge> MAX_QUEUE_SIZE \<Longrightarrow> has k (messageQueues s)"
  by (auto simp: queueOf_def has_def MAX_QUEUE_SIZE_def split: option.splits)

text \<open>
  C7. When the queue of the message's key already holds 1000 messages (or more),
  \<open>send\<close> throws the queue-full error and the whole state is as before: the
  queues, the persisted files, the events and the processing flag.
\<close>

theorem send_queue_full:
  assumes "length (queueOf s (getQueueKey (targetAgentId (heap s r)) (worktree (heap s r)))) \<ge> 1000"
  shows "send s r = (Inl (QueueFull (targetAgentId (heap s r))), s)"
  using assms queueOf_full [of s "getQueueKey (targetAgentId (heap s r)) (worktree (heap s r))"]
  by (simp add: send_def Let_def MAX_QUEUE_SIZE_def)

theorem send_queue_full_witness:
  "length (queueOf fullQueue (getQueueKey (targetAgentId (heap fullQueue 0)) (worktree (heap fullQueue 0)))) \<ge> 1000
   \<and> send fullQueue 0 = (Inl (QueueFull ''a''), fullQueue)"
proof -
  have h: "length (queueOf fullQueue (getQueueKey (targetAgentId (heap fullQueue 0)) (worktree (heap fullQueue 0)))) \<ge> 1000"
    by (simp add: fullQueue_def newMessenger_def createMessage_def getQueueKey_def queueOf_def)
  have t: "targetAgentId (heap fullQueue 0) = ''a''"
    by (simp add: fullQueue_def newMessenger_def createMessage_def)
  from h send_queue_full [OF h] t show ?thesis by simp
qed

lemma heap_send: "heap (snd (send s r)) = heap s"
  by (simp add: send_def Let_def persistMessage_def emit_def startProcessing_def)

lemma queueOf_send:
  "queueOf (snd (send s r)) k =
     (if k = keyOf (heap s) r \<and> \<not> isl (fst (send s r))
      then sort_key (\<lambda>a. priority (heap s a)) (queueOf s k @ [r])
      else queueOf s k)"
  by (auto simp: send_def Let_def persistMessage_def emit_def startProcessing_def keyOf_def
        queueOf_def update_conv' has_def MAX_QUEUE_SIZE_def split: option.splits)


lemma send_accepts:
  "length (queueOf s (keyOf (heap s) r)) < MAX_QUEUE_SIZE \<Longrightarrow> fst (send s r) = Inr r"
  by (auto simp: send_def Let_def keyOf_def queueOf_def has_def update_conv'
      split: option.splits)

text \<open>
  What the collision of C10 means for \<open>send\<close>: a message without worktree and a
  message for the worktree \<open>default\<close>, to the same agent, end up in one queue.
\<close>

lemma default_bucket_shared:
  assumes "targetAgentId (h r1) = targetAgentId (h r2)"
    and "worktree (h r1) = None" and "worktree (h r2) = Some ''default''"
  shows "keyOf h r1 = keyOf h r2"
    and "set (queueOf (snd (sendAll (newMessenger h ok now) [r1, r2])) (keyOf h r1)) = {r1, r2}"
proof -
  let ?s0 = "newMessenger h ok now"
  let ?s1 = "snd (send ?s0 r1)"
  let ?s2 = "snd (send ?s1 r2)"
  let ?k = "keyOf h r1"
  show k: "keyOf h r1 = keyOf h r2"
    using assms by (simp add: keyOf_def getQueueKey_def)
  have h0: "heap ?s0 = h" and q0: "queueOf ?s0 ?k = []"
    by (simp_all add: newMessenger_def queueOf_def)
  have a1: "fst (send ?s0 r1) = Inr r1"
    using send_accepts [of ?s0 r1] by (simp add: h0 q0 MAX_QUEUE_SIZE_def)
  have h1: "heap ?s1 = h" using heap_send [of ?s0 r1] by (simp add: h0)
  have q1: "queueOf ?s1 ?k = [r1]"
    using queueOf_send [of ?s0 r1 ?k] by (simp add: h0 q0 a1)
  have a2: "fst (send ?s1 r2) = Inr r2"
    using send_accepts [of ?s1 r2] by (simp add: h1 q1 k [symmetric] MAX_QUEUE_SIZE_def)
  have q2: "set (queueOf ?s2 ?k) = {r1, r2}"
    using queueOf_send [of ?s1 r2 ?k] by (auto simp: h1 q1 a2 k [symmetric])
  have "sendAll ?s0 [r1, r2] = ([r1, r2], ?s2)"
    using a1 a2 by (simp add: prod_eq_iff split: prod.splits sum.splits)
  with q2 show "set (queueOf (snd (sendAll ?s0 [r1, r2])) ?k) = {r1, r2}"
    by simp
qed

lemma sendAll_heap: "sendAll s rs = (queued, s') \<Longrightarrow> heap s' = heap s"
proof (induction rs arbitrary: s queued s')
  case Nil
  then show ?case by simp
next
  case (Cons r rs)
  obtain res s1 where h: "send s r = (res, s1)" by (cases "send s r")
  with heap_send [of s r] have hs: "heap s1 = heap s" by simp
  show ?case
  proof (cases res)
    case (Inl e)
    with Cons.prems h have "sendAll s1 rs = (queued, s')" by simp
    from Cons.IH [OF this] hs show ?thesis by simp
  next
    case (Inr m)
    obtain q2 s2 where t: "sendAll s1 rs = (q2, s2)" by (cases "sendAll s1 rs")
    with Cons.prems h Inr have "s' = s2" by simp
    with Cons.IH [OF t] hs show ?thesis by simp
  qed
qed






lemma mutate_fields [simp]:
  "files (mutate r f s) = files s" "diskOk (mutate r f s) = diskOk s"
  "heap (mutate r f s) = (heap s)(r := f (heap s r))"
  "events (mutate r f s) = events s" "retryTimers (mutate r f s) = retryTimers s"
  by (simp_all add: mutate_def)

lemma writeFile_fields [simp]:
  "heap (writeFile d s) = heap s" "diskOk (writeFile d s) = diskOk s"
  "events (writeFile d s) = events s" "retryTimers (writeFile d s) = retryTimers s"
  by (simp_all add: writeFile_def)

lemma delete_fields [simp]:
  "heap (deletePersistedMessage i s) = heap s"
  "diskOk (deletePersistedMessage i s) = diskOk s"
  "events (deletePersistedMessage i s) = events s"
  by (simp_all add: deletePersistedMessage_def)

lemma emit_fields [simp]:
  "heap (emit n r s) = heap s" "diskOk (emit n r s) = diskOk s" "files (emit n r s) = files s"
  "events (emit n r s) = events s @ [(n, heap s r)]"
  by (simp_all add: emit_def)

lemma clearRetryTimer_fields [simp]:
  "messageQueues (clearRetryTimer i s) = messageQueues s" "heap (clearRetryTimer i s) = heap s"
  "diskOk (clearRetryTimer i s) = diskOk s" "files (clearRetryTimer i s) = files s"
  "clock (clearRetryTimer i s) = clock s"
  by (simp_all add: clearRetryTimer_def)

text \<open>
  \<open>send\<close> is its two stretches one after the other, up to the start of the loop.
\<close>

lemma send_stretches:
  "send s r =
     (case sendEnqueue s r of
        (Inl e, s1) \<Rightarrow> (Inl e, s1)
      | (Inr m, s1) \<Rightarrow>
          (Inr m, startProcessing (emit ''message:queued'' r (writeFile (heap s1 r) s1))))"
  by (simp add: send_def sendEnqueue_def Let_def persistMessage_def writeFile_def)

subsection \<open>The example run\<close>

lemmas step_defs = sendDone_def attempt_def sendCall_def sendEnqueue_def resumeCall_def
  resumeDrain_def resumeLoop_def afterPass_def deliverMessage_def markDelivered_def
  markFailed_def newBus_def newMessenger_def Let_def getQueueKey_def queueOf_def has_def
  MAX_QUEUE_SIZE_def MAX_RETRIES_def RETRY_DELAY_MS_def startProcessing_def shiftQueue_def
  writeFile_def deletePersistedMessage_def emit_def mutate_def clearRetryTimer_def
  neverDelivers_def forLoop.simps processQueue.simps

lemma six:
  "sixMessages 0 = createMessage ''m0'' 0 ''task'' ''lead'' ''a'' [] 2 None 30000"
  "sixMessages 1 = createMessage ''m1'' 0 ''task'' ''lead'' ''b'' [] 2 None 30000"
  "sixMessages 2 = createMessage ''m2'' 0 ''task'' ''lead'' ''b'' [] 2 None 30000"
  "sixMessages 3 = createMessage ''m3'' 0 ''task'' ''lead'' ''b'' [] 2 None 30000"
  "sixMessages 5 = createMessage ''m5'' 0 ''task'' ''lead'' ''a'' [] 0 None 30000"
  "sixMessages (Suc 0) = createMessage ''m1'' 0 ''task'' ''lead'' ''b'' [] 2 None 30000"
  by (simp_all add: sixMessages_def)

lemma idle1_eval:
  "heap (msgr idle1) = sixMessages(0 := (sixMessages 0)\<lparr>status := RETRYING, retryCount := 1\<rparr>)"
  "messageQueues (msgr idle1) = [(''default:a'', [0])]"
  "retryTimers (msgr idle1) = [(''m0'', (1000, 0))]"
  "isProcessing (msgr idle1) = False"
  "files (msgr idle1) = [(''m0'', (sixMessages 0)\<lparr>status := RETRYING, retryCount := 1\<rparr>)]"
  "diskOk (msgr idle1) = True" "clock (msgr idle1) = 0"
  "loop idle1 = None" "calls idle1 = []"
  by (simp_all add: idle1_def step_defs six createMessage_def)

lemma idle2_eval:
  "heap (msgr idle2)
     = sixMessages(0 := (sixMessages 0)\<lparr>status := RETRYING, retryCount := Suc (Suc 0)\<rparr>)"
  "messageQueues (msgr idle2) = [(''default:a'', [0]), (''default:b'', [1])]"
  "retryTimers (msgr idle2) = [(''m0'', (1000, 0))]"
  "isProcessing (msgr idle2) = False"
  "files (msgr idle2)
     = [(''m0'', (sixMessages 0)\<lparr>status := RETRYING, retryCount := Suc (Suc 0)\<rparr>),
        (''m1'', sixMessages 1)]"
  "diskOk (msgr idle2) = True" "clock (msgr idle2) = 0"
  "loop idle2 = None" "calls idle2 = []"
  by (simp_all add: idle2_def step_defs idle1_eval six createMessage_def)

lemma idle3_eval:
  "heap (msgr idle3)
     = sixMessages(0 := (sixMessages 0)\<lparr>status := RETRYING, retryCount := Suc (Suc (Suc 0))\<rparr>)"
  "messageQueues (msgr idle3) = [(''default:a'', [0]), (''default:b'', [1, 2])]"
  "retryTimers (msgr idle3) = [(''m0'', (1000, 0))]"
  "isProcessing (msgr idle3) = False"
  "files (msgr idle3)
     = [(''m0'', (sixMessages 0)\<lparr>status := RETRYING, retryCount := Suc (Suc (Suc 0))\<rparr>),
        (''m1'', sixMessages 1), (''m2'', sixMessages 2)]"
  "diskOk (msgr idle3) = True" "clock (msgr idle3) = 0"
  "loop idle3 = None" "calls idle3 = []"
  by (simp_all add: idle3_def step_defs idle2_eval six createMessage_def)

lemma exhaustedHead_eval:
  "heap (msgr exhaustedHead)
     = sixMessages(0 := (sixMessages 0)\<lparr>status := RETRYING, retryCount := Suc (Suc (Suc 0))\<rparr>)"
  "messageQueues (msgr exhaustedHead) = [(''default:a'', [0]), (''default:b'', [1, 2, 3])]"
  "retryTimers (msgr exhaustedHead) = [(''m0'', (1000, 0))]"
  "isProcessing (msgr exhaustedHead) = True"
  "diskOk (msgr exhaustedHead) = True" "clock (msgr exhaustedHead) = 0"
  "loop exhaustedHead
     = Some \<lparr>loop_pos = 0, loop_processed = False, loop_pc = AwaitDeliver 0 False\<rparr>"
  "calls exhaustedHead = []"
  by (simp_all add: exhaustedHead_def step_defs idle3_eval six createMessage_def)

lemma exhausting_eval:
  "heap (msgr exhausting)
     = sixMessages(0 := (sixMessages 0)\<lparr>status := FAILED, retryCount := Suc (Suc (Suc 0)),
                                          error := Some ''Max retries exceeded''\<rparr>)"
  "messageQueues (msgr exhausting) = [(''default:a'', [0]), (''default:b'', [1, 2, 3])]"
  "retryTimers (msgr exhausting) = [(''m0'', (1000, 0))]"
  "isProcessing (msgr exhausting) = True"
  "diskOk (msgr exhausting) = True" "clock (msgr exhausting) = 0"
  "loop exhausting
     = Some \<lparr>loop_pos = 0, loop_processed = False,
              loop_pc = AwaitFailedPersist 0
                ((sixMessages 0)\<lparr>status := FAILED, retryCount := Suc (Suc (Suc 0)),
                                   error := Some ''Max retries exceeded''\<rparr>)\<rparr>"
  "calls exhausting = []"
  by (simp_all add: exhausting_def step_defs exhaustedHead_eval six createMessage_def)


lemma overtaken_eval:
  "status (heap (msgr overtaken) 0) = FAILED"
  "queueOf (msgr overtaken) ''default:a'' = [0]"
  "queueOf (msgr overtaken) ''default:b'' = [1, 2, 3]"
  "status (heap (msgr overtaken) 5) = PENDING"
  by (simp_all add: overtaken_def step_defs exhausting_eval six createMessage_def)





subsection \<open>Retries\<close>

text \<open>
  Claim C2 (a failed delivery below three retries marks the message retrying,
  persists it and arms a timer of 1000 ms \<open>\<cdot>\<close> 2^\<open>retryCount\<close> whose firing sets it
  back to pending; at three retries the message is marked failed, persisted,
  announced and removed from the head of its queue), on a new bus whose deliveries
  fail. The first failure of \<open>m0\<close> is handled as claimed: retrying, count 1, a
  timer of 1000 ms whose firing makes the message pending, and the loop ends.
  \<open>send(m1)\<close> before that timer fires starts the loop again, and the loop attempts
  the retrying \<open>m0\<close> at once. At this second failure the count becomes 2 and the
  delay of 2000 ms is computed, but no timer is armed with it, because the first
  one is still registered. \<open>send(m2)\<close> and \<open>send(m3)\<close> bring the third and the
  fourth attempt: the message has failed for good while its first timer of
  1000 ms is still pending. And when \<open>send(m5)\<close> puts a more urgent message in
  front of \<open>m0\<close> while the loop awaits the write of the failed \<open>m0\<close>, the loop
  removes \<open>m5\<close>, which was never attempted, and the failed \<open>m0\<close> stays at the
  head of its queue.
\<close>

theorem retry_backoff_skipped:
  "status (heap (msgr idle1) 0) = RETRYING
   \<and> retryCount (heap (msgr idle1) 0) = 1
   \<and> map_of (retryTimers (msgr idle1)) ''m0'' = Some (RETRY_DELAY_MS * 2 ^ 0, 0)
   \<and> status (heap (retryTimerFired ''m0'' (msgr idle1)) 0) = PENDING
   \<and> loop idle1 = None \<and> calls idle1 = []
   \<and> status (heap (msgr idle2) 0) = RETRYING
   \<and> retryCount (heap (msgr idle2) 0) = 2
   \<and> retryTimers (msgr idle2) = [(''m0'', (1000, 0))]
   \<and> map_of (retryTimers (msgr idle2)) ''m0'' \<noteq> Some (RETRY_DELAY_MS * 2 ^ 1, 0)
   \<and> loop idle2 = None \<and> calls idle2 = []
   \<and> retryCount (heap (msgr idle3) 0) = 3
   \<and> retryTimers (msgr idle3) = [(''m0'', (1000, 0))]
   \<and> status (heap (msgr exhausting) 0) = FAILED
   \<and> retryTimers (msgr exhausting) = [(''m0'', (1000, 0))]
   \<and> status (heap (msgr overtaken) 0) = FAILED
   \<and> queueOf (msgr overtaken) ''default:a'' = [0]
   \<and> status (heap (msgr overtaken) 5) = PENDING"
  by (simp add: idle1_eval idle2_eval idle3_eval exhausting_eval overtaken_eval
      RETRY_DELAY_MS_def retryTimerFired_def)

subsection \<open>Terminal states\<close>














section \<open>Properties of the supervisor\<close>

text \<open>
  A call that finds ten (or more) active processes throws the capacity error and
  changes nothing: no call to the worktree service, no event. Calls that do not
  overlap keep the count at ten or below.
\<close>

lemma spawn_rejected_at_capacity:
  assumes "length (activeProcesses s) \<ge> 10"
  shows "spawnAgentInIsolation agentName wt cp now s
           = (Inl ''Maximum concurrent agents (10) reached'', s)"
  using assms
  by (simp add: spawnAgentInIsolation_def spawnEnter_def MAX_CONCURRENT_AGENTS_def digit_def)

lemma length_update_le: "length (AList.update k v al) \<le> Suc (length al)"
  by (induction al) auto

lemma spawn_sequential_cap:
  assumes "length (activeProcesses s) \<le> 10"
  shows "length (activeProcesses (snd (spawnAgentInIsolation agentName wt cp now s))) \<le> 10"
proof (cases "length (activeProcesses s) \<ge> 10")
  case True
  with assms show ?thesis by (simp add: spawn_rejected_at_capacity)
next
  case False
  then have lt: "length (activeProcesses s) < 10" by simp
  have u: "\<And>k v. length (AList.update k v (activeProcesses s)) \<le> 10"
    using length_update_le [of _ _ "activeProcesses s"] lt
    by (meson Suc_leI le_trans)
  from lt show ?thesis
    by (cases wt; cases cp)
       (simp_all add: spawnAgentInIsolation_def spawnEnter_def spawnWorktreeDone_def
         spawnProcessDone_def MAX_CONCURRENT_AGENTS_def call_def iso_emit_def Let_def
         setupProcessHandlers_def startResourceMonitoring_def u split: option.splits)
qed

text \<open>
  C4. The capacity check holds the number of active processes at 10 only when calls
  do not overlap. With nine active, two overlapping calls both pass the check (the
  second enters before the first has stored its process), and eleven processes are
  active at the end.
\<close>

theorem overlapping_spawns_exceed_cap:
  "length (activeProcesses nineActive) = 9
   \<and> fst (spawnEnter ''A'' nineActive) = Inr ()
   \<and> fst (spawnEnter ''B'' (snd (spawnEnter ''A'' nineActive))) = Inr ()
   \<and> length (activeProcesses overlappingSpawns) = 11
   \<and> MAX_CONCURRENT_AGENTS < length (activeProcesses overlappingSpawns)"
  by (simp add: overlappingSpawns_def nineActive_def newIsolation_def agentA_def agentB_def
      running_def spawnEnter_def spawnWorktreeDone_def spawnProcessDone_def
      MAX_CONCURRENT_AGENTS_def call_def iso_emit_def Let_def setupProcessHandlers_def
      startResourceMonitoring_def)

lemma oneMonitored_eval:
  "oneMonitored = \<lparr>activeProcesses = [(''agent-A'', running 201)],
     resourceMonitors = [(''agent-A'', \<lparr>startTime = 0, maxMemory = 0, cpuSamples = []\<rparr>)],
     isMonitoring = True, timeoutHandles = [''agent-A''],
     iso_events = [AgentSpawning ''agent-A'' ''A'' ''/wt/A'',
                   AgentSpawned ''agent-A'' ''A'' ''/wt/A'' (Some 201)],
     service_calls = [SpawnWorktreeAgent ''A'', StartAgentProcess ''agent-A'']\<rparr>"
  by (simp add: oneMonitored_def newIsolation_def agentA_def
      running_def spawnAgentInIsolation_def spawnEnter_def spawnWorktreeDone_def spawnProcessDone_def
      MAX_CONCURRENT_AGENTS_def call_def iso_emit_def Let_def setupProcessHandlers_def
      startResourceMonitoring_def)

lemma recordSample_fields [simp]:
  "activeProcesses (recordSample a st s) = activeProcesses s"
  "iso_events (recordSample a st s) = iso_events s"
  "service_calls (recordSample a st s) = service_calls s"
  by (simp_all add: recordSample_def Let_def split: option.splits)

text \<open>
  C5 (as amended). When a sample measures more than 512 MB, \<open>checkResources\<close> calls
  \<open>terminateAgent\<close> for the agent with the reason \<open>memory_limit_exceeded\<close>; for an
  agent among the active processes this emits \<open>agent:terminating\<close> with that reason
  and calls \<open>terminateAgent\<close> of the worktree service.
\<close>

theorem memory_limit_terminates:
  assumes "memoryMB stats > 512"
  shows "checkResources agentId (Resolved stats) svc s
           = snd (terminateAgent agentId ''memory_limit_exceeded'' svc (recordSample agentId stats s))
         \<and> (has agentId (activeProcesses s) \<longrightarrow>
              iso_events (checkResources agentId (Resolved stats) svc s)
                = iso_events s @ [AgentTerminating agentId ''memory_limit_exceeded'']
              \<and> service_calls (checkResources agentId (Resolved stats) svc s)
                = service_calls s @ [TerminateAgent agentId])"
  using assms
  by (cases svc)
     (simp_all add: checkResources_def AGENT_MEMORY_LIMIT_MB_def Let_def terminateAgent_def
       iso_emit_def call_def)

theorem memory_limit_terminates_witness:
  "memoryMB \<lparr>memoryMB = 600, cpuPercent = 5\<rparr> > 512
   \<and> has ''agent-A'' (activeProcesses oneMonitored)
   \<and> iso_events (checkResources ''agent-A'' (Resolved \<lparr>memoryMB = 600, cpuPercent = 5\<rparr>)
        (Resolved ()) oneMonitored)
      = iso_events oneMonitored @ [AgentTerminating ''agent-A'' ''memory_limit_exceeded'']
   \<and> service_calls (checkResources ''agent-A'' (Resolved \<lparr>memoryMB = 600, cpuPercent = 5\<rparr>)
        (Resolved ()) oneMonitored)
      = service_calls oneMonitored @ [TerminateAgent ''agent-A'']"
proof -
  have h: "memoryMB \<lparr>memoryMB = 600, cpuPercent = 5\<rparr> > 512" by simp
  have a: "has ''agent-A'' (activeProcesses oneMonitored)"
    by (simp add: oneMonitored_eval has_def)
  from memory_limit_terminates [OF h, of "''agent-A''" "Resolved ()" oneMonitored] h a
  show ?thesis by blast
qed

text \<open>
  C5 fails as stated: for a monitored, active agent measured at 600 MB no termination
  with the reason \<open>memory_limit\<close> is triggered; the reason is
  \<open>memory_limit_exceeded\<close>.
\<close>

theorem memory_limit_reason_counterexample:
  "memoryMB \<lparr>memoryMB = 600, cpuPercent = 5\<rparr> > 512
   \<and> has ''agent-A'' (resourceMonitors oneMonitored)
   \<and> has ''agent-A'' (activeProcesses oneMonitored)
   \<and> AgentTerminating ''agent-A'' ''memory_limit''
        \<notin> set (iso_events (checkResources ''agent-A''
                   (Resolved \<lparr>memoryMB = 600, cpuPercent = 5\<rparr>) (Resolved ()) oneMonitored))
   \<and> last (iso_events (checkResources ''agent-A''
                   (Resolved \<lparr>memoryMB = 600, cpuPercent = 5\<rparr>) (Resolved ()) oneMonitored))
        = AgentTerminating ''agent-A'' ''memory_limit_exceeded''"
  by (simp add: oneMonitored_eval has_def checkResources_def recordSample_def
      AGENT_MEMORY_LIMIT_MB_def Let_def terminateAgent_def iso_emit_def call_def)

text \<open>
  C6. On the child's exit the supervisor calls \<open>completeAgent\<close> if and only if the
  exit code is 0; for every other code, and for a signal (code \<open>null\<close>), it calls
  \<open>failAgent\<close> with an error whose message records the code and the signal. The
  \<open>agent:exit\<close> event is emitted and the process is no longer active.
\<close>

theorem exit_code_decides:
  "(code = Some 0 \<longrightarrow>
      service_calls (onExit agentId code signal s) = service_calls s @ [CompleteAgent agentId 0])
   \<and> (code \<noteq> Some 0 \<longrightarrow>
      service_calls (onExit agentId code signal s)
        = service_calls s @ [FailAgent agentId
            (''Process exited with code '' @ show_code code @ '', signal: '' @ show_signal signal)])
   \<and> ((\<exists>n. CompleteAgent agentId n
             \<in> set (drop (length (service_calls s)) (service_calls (onExit agentId code signal s))))
        \<longleftrightarrow> code = Some 0)
   \<and> iso_events (onExit agentId code signal s) = iso_events s @ [AgentExit agentId code signal]
   \<and> \<not> has agentId (activeProcesses (onExit agentId code signal s))"
proof -
  have d: "service_calls (detach agentId s) = service_calls s"
    "iso_events (detach agentId s) = iso_events s"
    "map_of (activeProcesses (detach agentId s)) agentId = None"
    by (simp_all add: detach_def stopResourceMonitoring_def Let_def delete_conv' split: option.splits)
  show ?thesis
    by (simp add: onExit_def Let_def call_def iso_emit_def d has_def)
qed

theorem exit_code_decides_witness:
  "service_calls (onExit ''agent-A'' (Some 0) None oneMonitored)
     = service_calls oneMonitored @ [CompleteAgent ''agent-A'' 0]
   \<and> service_calls (onExit ''agent-A'' (Some 137) None oneMonitored)
     = service_calls oneMonitored
         @ [FailAgent ''agent-A'' ''Process exited with code 137, signal: null'']
   \<and> service_calls (onExit ''agent-A'' None (Some ''SIGKILL'') oneMonitored)
     = service_calls oneMonitored
         @ [FailAgent ''agent-A'' ''Process exited with code null, signal: SIGKILL'']"
proof -
  have e: "show_code (Some 137) = ''137''" "show_code None = ''null''"
    "show_signal None = ''null''" "show_signal (Some ''SIGKILL'') = ''SIGKILL''"
    by (simp_all add: show_code_def show_signal_def js_number_def digit_def)
  from exit_code_decides [of "Some 0" "''agent-A''" None oneMonitored]
    exit_code_decides [of "Some 137" "''agent-A''" None oneMonitored]
    exit_code_decides [of None "''agent-A''" "Some ''SIGKILL''" oneMonitored]
  show ?thesis by (simp add: e)
qed

section \<open>Properties of the registry\<close>

lemma trim_no_break_space:
  "trim [CHR 0xC2, CHR 0xA0, CHR ''w'', CHR ''1'', CHR 0x20, CHR 0xEF, CHR 0xBB, CHR 0xBF] = ''w1''"
  by code_simp

lemma workerOne_normalized: "normalizeAgentData workerOne = Some workerOneRecord"
  by code_simp

lemma fields_markDirty [simp]: "agents (markDirty s) = agents s"
  by (simp add: markDirty_def)

lemma fields_reg_emit [simp]: "agents (reg_emit n a s) = agents s"
  by (simp add: reg_emit_def)

lemma agents_transition_event:
  "agents (case x of None \<Rightarrow> a | Some p \<Rightarrow> if c p then reg_emit (nm p) r a else a) = agents a"
  by (cases x) simp_all

lemma register_valid:
  assumes "normalizeAgentData raw = Some n"
  shows "fst (register now raw s)
           = Inr (n\<lparr>agent_startTime := Some (case agent_startTime n of None \<Rightarrow> now | Some t \<Rightarrow> t)\<rparr>)"
    and "map_of (agents (snd (register now raw s))) (agent_id n)
           = Some (n\<lparr>agent_startTime := Some (case agent_startTime n of None \<Rightarrow> now | Some t \<Rightarrow> t)\<rparr>)"
proof -
  define s1 where "s1 = (if length (agents s) \<ge> MAX_REGISTRY_SIZE then cleanupOldAgents now s else s)"
  define r where "r = n\<lparr>agent_startTime := Some (case agent_startTime n of None \<Rightarrow> now | Some t \<Rightarrow> t)\<rparr>"
  define s3 where "s3 = reg_emit ''agent:registered'' r (s1\<lparr>agents := AList.update (agent_id r) r (agents s1)\<rparr>)"
  have i: "agent_id r = agent_id n" by (simp add: r_def)
  have reg: "register now raw s =
      (Inr r, markDirty (case map_option agent_status (map_of (agents s1) (agent_id n)) of
                           None \<Rightarrow> s3
                         | Some p \<Rightarrow> if p \<noteq> [] \<and> p \<noteq> agent_status r
                                     then reg_emit (''agent:'' @ p @ '':->:'' @ agent_status r) r s3
                                     else s3))"
    unfolding register_def assms option.case Let_def s1_def r_def s3_def by (rule refl)
  have ag: "agents s3 = AList.update (agent_id n) r (agents s1)"
    by (simp add: s3_def i)
  show "fst (register now raw s)
           = Inr (n\<lparr>agent_startTime := Some (case agent_startTime n of None \<Rightarrow> now | Some t \<Rightarrow> t)\<rparr>)"
    unfolding reg fst_conv r_def ..
  show "map_of (agents (snd (register now raw s))) (agent_id n)
           = Some (n\<lparr>agent_startTime := Some (case agent_startTime n of None \<Rightarrow> now | Some t \<Rightarrow> t)\<rparr>)"
    unfolding reg snd_conv fields_markDirty agents_transition_event ag
    by (simp add: update_conv' r_def)
qed

lemma unregister_present:
  assumes "map_of (agents s) ident = Some a"
  shows "fst (unregister ident s) = Some a"
    and "map_of (agents (snd (unregister ident s))) ident = None"
  using assms by (simp_all add: unregister_def delete_conv')

text \<open>
  C8. For every valid worker record (one that \<open>normalizeAgentData\<close> accepts),
  \<open>register\<close> returns the normalized record, with the start time set to the
  current time if it had none; \<open>get\<close> on its id returns that record; \<open>unregister\<close>
  returns it and a following \<open>get\<close> on the id returns \<open>null\<close>.
\<close>

theorem register_get_unregister:
  assumes "normalizeAgentData raw = Some n"
  shows "\<exists>r s1. register now raw s = (Inr r, s1)
           \<and> r = n\<lparr>agent_startTime := Some (case agent_startTime n of None \<Rightarrow> now | Some t \<Rightarrow> t)\<rparr>
           \<and> get s1 (agent_id r) = Some r
           \<and> fst (unregister (agent_id r) s1) = Some r
           \<and> get (snd (unregister (agent_id r) s1)) (agent_id r) = None"
proof -
  let ?r = "n\<lparr>agent_startTime := Some (case agent_startTime n of None \<Rightarrow> now | Some t \<Rightarrow> t)\<rparr>"
  let ?s1 = "snd (register now raw s)"
  have i: "agent_id ?r = agent_id n" by simp
  note v = register_valid [OF assms, of now s]
  have "register now raw s = (Inr ?r, ?s1)"
    using v(1) by (simp add: prod_eq_iff)
  moreover have "get ?s1 (agent_id ?r) = Some ?r"
    unfolding i get_def by (rule v(2))
  moreover have "fst (unregister (agent_id ?r) ?s1) = Some ?r"
    unfolding i by (rule unregister_present(1) [OF v(2)])
  moreover have "get (snd (unregister (agent_id ?r) ?s1)) (agent_id ?r) = None"
    unfolding i get_def by (rule unregister_present(2) [OF v(2)])
  ultimately show ?thesis by blast
qed

theorem register_get_unregister_witness:
  "normalizeAgentData workerOne = Some workerOneRecord
   \<and> fst (register 1000 workerOne newRegistry) = Inr (workerOneRecord\<lparr>agent_startTime := Some 1000\<rparr>)
   \<and> get (snd (register 1000 workerOne newRegistry)) ''w1''
       = Some (workerOneRecord\<lparr>agent_startTime := Some 1000\<rparr>)
   \<and> get (snd (unregister ''w1'' (snd (register 1000 workerOne newRegistry)))) ''w1'' = None"
proof -
  have i: "agent_id workerOneRecord = ''w1''" "agent_startTime workerOneRecord = None"
    by (simp_all add: workerOneRecord_def)
  from register_get_unregister [OF workerOne_normalized, of 1000 newRegistry]
  show ?thesis
    by (auto simp: workerOne_normalized i)
qed

lemma agents_loadEntry:
  "agents (loadEntry e s)
     = (case normalizeAgentData e of None \<Rightarrow> agents s
        | Some n \<Rightarrow> AList.update (agent_id n) n (agents s))"
  by (simp add: loadEntry_def split: option.splits)

lemma fold_loadEntry:
  "agents (fold loadEntry entries s)
     = fold (\<lambda>n al. AList.update (agent_id n) n al) (List.map_filter normalizeAgentData entries) (agents s)"
proof (induction entries arbitrary: s)
  case Nil
  then show ?case by (simp add: List.map_filter_simps)
next
  case (Cons e es)
  have "agents (fold loadEntry (e # es) s) = agents (fold loadEntry es (loadEntry e s))"
    by simp
  also have "\<dots> = fold (\<lambda>n al. AList.update (agent_id n) n al)
                     (List.map_filter normalizeAgentData es) (agents (loadEntry e s))"
    by (rule Cons.IH)
  also have "\<dots> = fold (\<lambda>n al. AList.update (agent_id n) n al)
                     (List.map_filter normalizeAgentData (e # es)) (agents s)"
    by (cases "normalizeAgentData e") (simp_all add: agents_loadEntry List.map_filter_simps)
  finally show ?case .
qed

lemma rest_loadEntry [simp]:
  "isDirty (loadEntry e s) = isDirty s" "reg_events (loadEntry e s) = reg_events s"
  by (simp_all add: loadEntry_def split: option.splits)

lemma fold_loadEntry_rest:
  "isDirty (fold loadEntry entries s) = isDirty s"
  "reg_events (fold loadEntry entries s) = reg_events s"
  by (induction entries arbitrary: s) simp_all

text \<open>
  C9. \<open>loadFromDisk\<close> never throws. When the file cannot be read, is not valid JSON
  or is not a JSON array, the agent map is empty afterwards. For an array, the map
  holds the normal forms of the entries that normalize, stored in order; the others
  are skipped.
\<close>

theorem loadFromDisk_never_throws:
  "(\<exists>s'. loadFromDisk parse rr s = Inr s')
   \<and> ((\<exists>code. rr = ReadError code)
        \<or> (\<exists>d. rr = FileData d \<and> parse d = None)
        \<or> (\<exists>d v. rr = FileData d \<and> parse d = Some v \<and> (\<forall>entries. v \<noteq> JArr entries))
       \<longrightarrow> loadFromDisk parse rr s = Inr (s\<lparr>agents := []\<rparr>))
   \<and> (\<forall>d entries. rr = FileData d \<and> parse d = Some (JArr entries)
       \<longrightarrow> loadFromDisk parse rr s
             = Inr (s\<lparr>agents := fold (\<lambda>n al. AList.update (agent_id n) n al)
                                  (List.map_filter normalizeAgentData entries) []\<rparr>))"
proof -
  have arr: "\<And>entries. fold loadEntry entries (s\<lparr>agents := []\<rparr>)
        = s\<lparr>agents := fold (\<lambda>n al. AList.update (agent_id n) n al)
                          (List.map_filter normalizeAgentData entries) []\<rparr>"
    using fold_loadEntry [of _ "s\<lparr>agents := []\<rparr>"] fold_loadEntry_rest [of _ "s\<lparr>agents := []\<rparr>"]
    by (intro registry.equality) simp_all
  show ?thesis
    by (cases rr)
       (auto simp: loadFromDisk_def loadFromDisk_try_def arr split: option.splits json.splits)
qed

theorem loadFromDisk_never_throws_witness:
  "loadFromDisk parseExample (ReadError ''EACCES'') (snd (register 1000 workerOne newRegistry))
     = Inr ((snd (register 1000 workerOne newRegistry))\<lparr>agents := []\<rparr>)
   \<and> loadFromDisk parseExample (FileData ''not json'') (snd (register 1000 workerOne newRegistry))
     = Inr ((snd (register 1000 workerOne newRegistry))\<lparr>agents := []\<rparr>)
   \<and> loadFromDisk parseExample (FileData ''{}'') (snd (register 1000 workerOne newRegistry))
     = Inr ((snd (register 1000 workerOne newRegistry))\<lparr>agents := []\<rparr>)
   \<and> loadFromDisk parseExample (FileData ''[w1, null, x]'') newRegistry
     = Inr (newRegistry\<lparr>agents := [(''w1'', workerOneRecord)]\<rparr>)"
proof -
  let ?s = "snd (register 1000 workerOne newRegistry)"
  have p: "parseExample ''not json'' = None" "parseExample ''{}'' = Some (JObj [])"
    "parseExample ''[w1, null, x]'' = Some (JArr [workerOne, JNull, JObj [(''id'', JStr ''x'')]])"
    by (simp_all add: parseExample_def)
  have bad: "normalizeAgentData JNull = None"
    "normalizeAgentData (JObj [(''id'', JStr ''x'')]) = None"
    by code_simp+
  have i: "agent_id workerOneRecord = ''w1''" by (simp add: workerOneRecord_def)
  from loadFromDisk_never_throws [of parseExample "ReadError ''EACCES''" ?s]
    loadFromDisk_never_throws [of parseExample "FileData ''not json''" ?s]
    loadFromDisk_never_throws [of parseExample "FileData ''{}''" ?s]
    loadFromDisk_never_throws [of parseExample "FileData ''[w1, null, x]''" newRegistry]
  show ?thesis
    by (simp add: p i workerOne_normalized bad)
qed


end
